theory Spec2Isabelle
  imports Complex_Main "HOL-Library.AList"
begin

section \<open>JavaScript strings\<close>

text \<open>
  Strings are character lists. The functions below are the \<open>String.prototype\<close> methods the
  dashboard calls, on ASCII text: \<open>toLowerCase\<close>, \<open>startsWith\<close>, \<open>endsWith\<close>,
  \<open>includes\<close>, \<open>trim\<close>, \<open>split\<close> on one character, \<open>join\<close> and a global
  \<open>replace\<close> of one character.
\<close>

definition lowerChar :: "char \<Rightarrow> char" where
  "lowerChar c =
     (case map_of (zip ''ABCDEFGHIJKLMNOPQRSTUVWXYZ'' ''abcdefghijklmnopqrstuvwxyz'') c of
        None \<Rightarrow> c
      | Some d \<Rightarrow> d)"

definition toLowerCase :: "string \<Rightarrow> string" where
  "toLowerCase s = map lowerChar s"

fun startsWith :: "string \<Rightarrow> string \<Rightarrow> bool" where
  "startsWith s [] = True"
| "startsWith [] (p # ps) = False"
| "startsWith (c # cs) (p # ps) = (c = p \<and> startsWith cs ps)"

definition endsWith :: "string \<Rightarrow> string \<Rightarrow> bool" where
  "endsWith s p = startsWith (rev s) (rev p)"

fun includesStr :: "string \<Rightarrow> string \<Rightarrow> bool" where
  "includesStr [] sub = (sub = [])"
| "includesStr (c # cs) sub = (startsWith (c # cs) sub \<or> includesStr cs sub)"

definition isSpace :: "char \<Rightarrow> bool" where
  \<comment> \<open>the white space and line terminators of ECMAScript below U+0100\<close>
  "isSpace c = (c \<in> set [CHR 0x09, CHR 0x0A, CHR 0x0B, CHR 0x0C, CHR 0x0D, CHR '' '', CHR 0xA0])"

definition trim :: "string \<Rightarrow> string" where
  "trim s = rev (dropWhile isSpace (rev (dropWhile isSpace s)))"

fun splitOn :: "char \<Rightarrow> string \<Rightarrow> string list" where
  "splitOn d [] = [[]]"
| "splitOn d (c # cs) =
     (if c = d then [] # splitOn d cs
      else (case splitOn d cs of [] \<Rightarrow> [[c]] | w # ws \<Rightarrow> (c # w) # ws))"

fun joinWith :: "string \<Rightarrow> string list \<Rightarrow> string" where
  "joinWith d [] = []"
| "joinWith d [w] = w"
| "joinWith d (w # v # ws) = w @ d @ joinWith d (v # ws)"

definition replaceAll :: "char \<Rightarrow> string \<Rightarrow> string \<Rightarrow> string" where
  "replaceAll c r s = concat (map (\<lambda>x. if x = c then r else [x]) s)"

definition isDigit :: "char \<Rightarrow> bool" where
  "isDigit c = (c \<in> set ''0123456789'')"

definition digitVal :: "char \<Rightarrow> nat" where
  "digitVal c =
     (case map_of (zip ''0123456789'' [0, 1, 2, 3, 4, 5, 6, 7, 8, 9]) c of
        None \<Rightarrow> 0
      | Some d \<Rightarrow> d)"

section \<open>JavaScript values\<close>

text \<open>
  A cell is one of the primitive values a parsed file holds. Numbers are IEEE doubles in the
  program; the model keeps their exact rational value, with \<open>NaN\<close> and the two infinities,
  and leaves rounding and the sign of zero out. \<open>Other t s\<close> is any value that is not a
  primitive (an object or a function), with the text \<open>t\<close> that \<open>typeof\<close> gives for it and
  the text \<open>s\<close> that \<open>String\<close> gives; two such values are the same value when these texts
  are the same.
\<close>

datatype jsnum = NaN | Infty bool | Fin rat

datatype jsval = Null | Undefined | Str string | Num jsnum | Bool bool | Other string string

fun truthy :: "jsval \<Rightarrow> bool" where
  "truthy Null = False"
| "truthy Undefined = False"
| "truthy (Str s) = (s \<noteq> [])"
| "truthy (Num NaN) = False"
| "truthy (Num (Infty b)) = True"
| "truthy (Num (Fin q)) = (q \<noteq> 0)"
| "truthy (Bool b) = b"
| "truthy (Other t s) = True"

text \<open>\<open>isEmptyCell v\<close> is the test \<open>v === null || v === undefined || v === ''\<close>.\<close>

fun isEmptyCell :: "jsval \<Rightarrow> bool" where
  "isEmptyCell Null = True"
| "isEmptyCell Undefined = True"
| "isEmptyCell (Str s) = (s = [])"
| "isEmptyCell _ = False"

subsection \<open>The host\<close>

text \<open>
  What the ECMAScript host decides and the repository does not: the decimal rendering of a
  number that is not a small integer, whether \<open>Date.parse\<close> accepts a text (outside the ISO
  format this is implementation-defined) and whether the \<open>URL\<close> constructor does. The
  functions of the program take the host as their first argument.
\<close>

record host =
  fracToString :: "rat \<Rightarrow> string"
  dateParse :: "string \<Rightarrow> bool"
  urlParse :: "string \<Rightarrow> bool"

fun showNat :: "nat \<Rightarrow> string" where
  "showNat n =
     (if n < 10 then [''0123456789'' ! n]
      else showNat (n div 10) @ [''0123456789'' ! (n mod 10)])"

declare showNat.simps [simp del]

definition showInt :: "int \<Rightarrow> string" where
  "showInt i = (if i < 0 then CHR ''-'' # showNat (nat (- i)) else showNat (nat i))"

definition isInt :: "rat \<Rightarrow> bool" where
  "isInt q = (of_int \<lfloor>q\<rfloor> = q)"

text \<open>
  \<open>Number::toString\<close>: an integer below \<open>10\<^sup>2\<^sup>1\<close> in absolute value prints its decimal
  digits; every other finite number is the host's.
\<close>

fun numToString :: "host \<Rightarrow> jsnum \<Rightarrow> string" where
  "numToString h NaN = ''NaN''"
| "numToString h (Infty b) = (if b then ''Infinity'' else ''-Infinity'')"
| "numToString h (Fin q) =
     (if isInt q \<and> \<bar>q\<bar> < 10 ^ 21 then showInt \<lfloor>q\<rfloor> else fracToString h q)"

text \<open>\<open>toStr h v\<close> is \<open>String(v)\<close>.\<close>

fun toStr :: "host \<Rightarrow> jsval \<Rightarrow> string" where
  "toStr h Null = ''null''"
| "toStr h Undefined = ''undefined''"
| "toStr h (Str s) = s"
| "toStr h (Num n) = numToString h n"
| "toStr h (Bool b) = (if b then ''true'' else ''false'')"
| "toStr h (Other t s) = s"

fun typeof :: "jsval \<Rightarrow> string" where
  "typeof Null = ''object''"
| "typeof Undefined = ''undefined''"
| "typeof (Str s) = ''string''"
| "typeof (Num n) = ''number''"
| "typeof (Bool b) = ''boolean''"
| "typeof (Other t s) = t"

text \<open>
  A reference host for evaluating the program on concrete inputs. It prints a non-integer with
  its exact decimal digits (up to twenty), accepts as a date only a text that holds a digit and
  as a URL only a text that holds a colon. Where a result below depends on one of these tests,
  the text tested has no digit and no colon, and the hosts in use reject it as well: a date
  needs a day or a year, an absolute URL needs a scheme. The numbers printed are integers and
  short decimals.
\<close>

fun fracDigits :: "nat \<Rightarrow> rat \<Rightarrow> string" where
  "fracDigits 0 q = []"
| "fracDigits (Suc k) q =
     (if q = 0 then []
      else (''0123456789'' ! nat \<lfloor>q * 10\<rfloor>) # fracDigits k (q * 10 - of_int \<lfloor>q * 10\<rfloor>))"

definition showFrac :: "rat \<Rightarrow> string" where
  "showFrac q =
     (if q < 0 then ''-'' else '''') @ showInt \<lfloor>\<bar>q\<bar>\<rfloor> @ ''.'' @ fracDigits 20 (\<bar>q\<bar> - of_int \<lfloor>\<bar>q\<bar>\<rfloor>)"

definition refHost :: host where
  "refHost = \<lparr> fracToString = showFrac,
               dateParse = (\<lambda>s. \<exists>c \<in> set s. isDigit c),
               urlParse = (\<lambda>s. CHR '':'' \<in> set s) \<rparr>"

section \<open>Rows and tables\<close>

text \<open>
  A \<open>DataRow\<close> is a \<open>Record<string, any>\<close>: an association list in insertion order. Reading
  a key that is absent gives \<open>undefined\<close>; the spread \<open>{ ...row, [field]: value }\<close> replaces
  the value of a present key in place and appends an absent one, which is \<open>AList.update\<close>.
  Column and table names are taken not to be array indices (which an object lists first) nor
  names that every object inherits, such as \<open>constructor\<close>.
\<close>

type_synonym row = "(string \<times> jsval) list"

definition getCell :: "row \<Rightarrow> string \<Rightarrow> jsval" where
  "getCell r k = (case map_of r k of None \<Rightarrow> Undefined | Some v \<Rightarrow> v)"

section \<open>CSV export\<close>

text \<open>
  \<open>downloadCSV\<close> of \<open>export-controls.tsx\<close>. The model returns the text handed to the
  \<open>Blob\<close>; \<open>None\<close> is the early return on an empty table, where nothing is downloaded.
  \<open>csvCell\<close> is the body of the inner \<open>headers.map\<close>.
\<close>

definition csvCell :: "host \<Rightarrow> row \<Rightarrow> string \<Rightarrow> string" where
  "csvCell h r header =
     (let v = (if truthy (getCell r header) then getCell r header else Str '''')
      in if includesStr (toStr h v) '','' then ''\"'' @ replaceAll CHR ''\"'' ''\"\"'' (toStr h v) @ ''\"''
         else toStr h v)"

definition downloadCSV :: "host \<Rightarrow> row list \<Rightarrow> string option" where
  "downloadCSV h dat =
     (case dat of
        [] \<Rightarrow> None
      | r0 # _ \<Rightarrow>
          (let headers = map fst r0
           in Some (joinWith [CHR 0x0A]
                (joinWith '','' headers #
                 map (\<lambda>r. joinWith '','' (map (csvCell h r) headers)) dat))))"

section \<open>Numbers read from text\<close>

text \<open>The value of a run of decimal digits, most significant first.\<close>

definition digitsVal :: "string \<Rightarrow> nat" where
  "digitsVal ds = foldl (\<lambda>a c. 10 * a + digitVal c) 0 ds"

text \<open>
  A decimal read from text is rounded to a double; the model keeps the exact value. (A text
  whose value is beyond the largest double reads as an infinity in the program and as its
  value here.)
\<close>

definition negNum :: "jsnum \<Rightarrow> jsnum" where
  "negNum n = (case n of NaN \<Rightarrow> NaN | Infty b \<Rightarrow> Infty (\<not> b) | Fin q \<Rightarrow> Fin (- q))"

text \<open>
  \<open>parseFloat\<close>: leading white space is skipped and the longest prefix that is a
  \<open>StrDecimalLiteral\<close> is read: a sign, then \<open>Infinity\<close> or digits with an optional fraction
  and an optional exponent. An exponent mark with no digit after it is not part of the number.
\<close>

definition expPart :: "string \<Rightarrow> int" where
  "expPart r =
     (case r of
        [] \<Rightarrow> 0
      | e # r1 \<Rightarrow>
          if e = CHR ''e'' \<or> e = CHR ''E'' then
            (case r1 of
               [] \<Rightarrow> 0
             | s # r2 \<Rightarrow>
                 if s = CHR ''-'' then - int (digitsVal (takeWhile isDigit r2))
                 else if s = CHR ''+'' then int (digitsVal (takeWhile isDigit r2))
                 else int (digitsVal (takeWhile isDigit r1)))
          else 0)"

definition scale10 :: "rat \<Rightarrow> int \<Rightarrow> rat" where
  "scale10 q e = (if e < 0 then q / 10 ^ nat (- e) else q * 10 ^ nat e)"

definition unsignedFloat :: "string \<Rightarrow> jsnum" where
  "unsignedFloat u =
     (if startsWith u ''Infinity'' then Infty True
      else
        (let ip = takeWhile isDigit u;
             r1 = dropWhile isDigit u;
             hasDot = (r1 \<noteq> [] \<and> hd r1 = CHR ''.'');
             fp = (if hasDot then takeWhile isDigit (tl r1) else []);
             r2 = (if hasDot then dropWhile isDigit (tl r1) else r1)
         in if ip = [] \<and> fp = [] then NaN
            else Fin (scale10 (of_nat (digitsVal (ip @ fp))) (expPart r2 - int (length fp)))))"

definition parseFloat :: "string \<Rightarrow> jsnum" where
  "parseFloat s =
     (case dropWhile isSpace s of
        [] \<Rightarrow> NaN
      | c # cs \<Rightarrow>
          if c = CHR ''-'' then negNum (unsignedFloat cs)
          else if c = CHR ''+'' then unsignedFloat cs
          else unsignedFloat (c # cs))"

text \<open>
  \<open>parseInt\<close> with no radix: white space, a sign, then hexadecimal digits after \<open>0x\<close> or
  \<open>0X\<close> and decimal digits otherwise; \<open>NaN\<close> when there is no digit.
\<close>

definition hexVal :: "char \<Rightarrow> nat option" where
  "hexVal c = map_of (zip ''0123456789abcdefABCDEF'' ([0 ..< 16] @ [10 ..< 16])) c"

definition unsignedInt :: "string \<Rightarrow> jsnum" where
  "unsignedInt u =
     (if startsWith u ''0x'' \<or> startsWith u ''0X'' then
        (let ds = takeWhile (\<lambda>c. hexVal c \<noteq> None) (drop 2 u)
         in if ds = [] then NaN
            else Fin (of_nat
                   (foldl (\<lambda>a c. 16 * a + (case hexVal c of None \<Rightarrow> 0 | Some d \<Rightarrow> d)) 0 ds)))
      else
        (let ds = takeWhile isDigit u
         in if ds = [] then NaN else Fin (of_nat (digitsVal ds))))"

definition parseInt :: "string \<Rightarrow> jsnum" where
  "parseInt s =
     (case dropWhile isSpace s of
        [] \<Rightarrow> NaN
      | c # cs \<Rightarrow>
          if c = CHR ''-'' then negNum (unsignedInt cs)
          else if c = CHR ''+'' then unsignedInt cs
          else unsignedInt (c # cs))"

definition isNaN :: "jsnum \<Rightarrow> bool" where
  "isNaN n = (n = NaN)"

definition isFinite :: "jsnum \<Rightarrow> bool" where
  "isFinite n = (case n of Fin q \<Rightarrow> True | _ \<Rightarrow> False)"

text \<open>The comparison \<open>a > b\<close> of two numbers: false when either is \<open>NaN\<close>.\<close>

fun gtNum :: "jsnum \<Rightarrow> jsnum \<Rightarrow> bool" where
  "gtNum NaN b = False"
| "gtNum a NaN = False"
| "gtNum (Infty x) (Infty y) = (x \<and> \<not> y)"
| "gtNum (Infty x) (Fin q) = x"
| "gtNum (Fin p) (Infty y) = (\<not> y)"
| "gtNum (Fin p) (Fin q) = (q < p)"

text \<open>
  The arithmetic the classifier does on scores: a count divided by a count (\<open>0 / 0\<close> is
  \<open>NaN\<close>), a number times or divided by a positive constant, a constant plus a number.
\<close>

definition divCount :: "nat \<Rightarrow> nat \<Rightarrow> jsnum" where
  "divCount m n =
     (if n = 0 then (if m = 0 then NaN else Infty True) else Fin (of_nat m / of_nat n))"

definition timesNum :: "jsnum \<Rightarrow> rat \<Rightarrow> jsnum" where
  \<comment> \<open>the constant is positive\<close>
  "timesNum a k = (case a of Fin q \<Rightarrow> Fin (q * k) | _ \<Rightarrow> a)"

definition overNum :: "jsnum \<Rightarrow> rat \<Rightarrow> jsnum" where
  \<comment> \<open>the constant is positive\<close>
  "overNum a k = (case a of Fin q \<Rightarrow> Fin (q / k) | _ \<Rightarrow> a)"

definition plusNum :: "rat \<Rightarrow> jsnum \<Rightarrow> jsnum" where
  "plusNum k a = (case a of Fin q \<Rightarrow> Fin (k + q) | _ \<Rightarrow> a)"

text \<open>\<open>Math.round\<close>: the nearest integer, a half rounding up.\<close>

definition roundNum :: "jsnum \<Rightarrow> jsnum" where
  "roundNum a = (case a of Fin q \<Rightarrow> Fin (of_int \<lfloor>q + 1 / 2\<rfloor>) | _ \<Rightarrow> a)"

section \<open>Patterns\<close>

text \<open>
  The identifier pattern \<open>/^[A-Z]\d{3,}$|^[a-zA-Z0-9-_]{8,}$/\<close>: a capital letter and at
  least three digits, or at least eight letters, digits, dashes and underscores.
\<close>

definition isUpperAZ :: "char \<Rightarrow> bool" where
  "isUpperAZ c = (c \<in> set ''ABCDEFGHIJKLMNOPQRSTUVWXYZ'')"

definition isIdChar :: "char \<Rightarrow> bool" where
  "isIdChar c =
     (c \<in> set ''abcdefghijklmnopqrstuvwxyzABCDEFGHIJKLMNOPQRSTUVWXYZ0123456789-_'')"

definition idPattern :: "string \<Rightarrow> bool" where
  "idPattern s =
     ((case s of [] \<Rightarrow> False | c # ds \<Rightarrow> isUpperAZ c \<and> 3 \<le> length ds \<and> list_all isDigit ds)
      \<or> (8 \<le> length s \<and> list_all isIdChar s))"

text \<open>
  The e-mail pattern \<open>/^[^\s@]+@[^\s@]+\.[^\s@]+$/\<close>. None of the three parts holds an
  \<open>@\<close>, so the text has exactly one, and the part after it has a dot that is neither its
  first nor its last character.
\<close>

definition emailRegex :: "string \<Rightarrow> bool" where
  "emailRegex s =
     (let ok = (\<lambda>c. \<not> isSpace c \<and> c \<noteq> CHR ''@'');
          a = takeWhile (\<lambda>c. c \<noteq> CHR ''@'') s;
          r = dropWhile (\<lambda>c. c \<noteq> CHR ''@'') s
      in a \<noteq> [] \<and> list_all ok a \<and> r \<noteq> [] \<and> list_all ok (tl r) \<and>
         CHR ''.'' \<in> set (butlast (tl (tl r))))"

section \<open>JSON texts\<close>

text \<open>
  \<open>JSON.parse\<close> as the program uses it: whether the text parses, and whether the value is
  an array. The text is cut into tokens by an automaton over its characters, and the tokens are
  checked against the grammar with a stack of the open brackets.
\<close>

datatype jtok = TLBrace | TRBrace | TLBrack | TRBrack | TColon | TComma | TString | TAtom

datatype numst = NMinus | NZero | NInt | NDot | NFrac | NE | NESign | NExp

datatype lexmode = LIdle | LStr | LEsc | LUni nat | LNum numst | LLit string

definition numStep :: "numst \<Rightarrow> char \<Rightarrow> numst option" where
  "numStep n c =
     (case n of
        NMinus \<Rightarrow> (if c = CHR ''0'' then Some NZero else if isDigit c then Some NInt else None)
      | NZero \<Rightarrow> (if c = CHR ''.'' then Some NDot
                  else if c = CHR ''e'' \<or> c = CHR ''E'' then Some NE else None)
      | NInt \<Rightarrow> (if isDigit c then Some NInt else if c = CHR ''.'' then Some NDot
                 else if c = CHR ''e'' \<or> c = CHR ''E'' then Some NE else None)
      | NDot \<Rightarrow> (if isDigit c then Some NFrac else None)
      | NFrac \<Rightarrow> (if isDigit c then Some NFrac
                  else if c = CHR ''e'' \<or> c = CHR ''E'' then Some NE else None)
      | NE \<Rightarrow> (if isDigit c then Some NExp
               else if c = CHR ''+'' \<or> c = CHR ''-'' then Some NESign else None)
      | NESign \<Rightarrow> (if isDigit c then Some NExp else None)
      | NExp \<Rightarrow> (if isDigit c then Some NExp else None))"

definition numDone :: "numst \<Rightarrow> bool" where
  "numDone n = (n = NZero \<or> n = NInt \<or> n = NFrac \<or> n = NExp)"

definition idleStep :: "char \<Rightarrow> (lexmode \<times> jtok list) option" where
  "idleStep c =
     (if c \<in> set [CHR '' '', CHR 0x09, CHR 0x0A, CHR 0x0D] then Some (LIdle, [])
      else if c = CHR ''{'' then Some (LIdle, [TLBrace])
      else if c = CHR ''}'' then Some (LIdle, [TRBrace])
      else if c = CHR ''['' then Some (LIdle, [TLBrack])
      else if c = CHR '']'' then Some (LIdle, [TRBrack])
      else if c = CHR '':'' then Some (LIdle, [TColon])
      else if c = CHR '','' then Some (LIdle, [TComma])
      else if c = CHR 0x22 then Some (LStr, [])
      else if c = CHR ''-'' then Some (LNum NMinus, [])
      else if c = CHR ''0'' then Some (LNum NZero, [])
      else if isDigit c then Some (LNum NInt, [])
      else if c = CHR ''t'' then Some (LLit ''rue'', [])
      else if c = CHR ''f'' then Some (LLit ''alse'', [])
      else if c = CHR ''n'' then Some (LLit ''ull'', [])
      else None)"

definition lexStep :: "lexmode \<Rightarrow> char \<Rightarrow> (lexmode \<times> jtok list) option" where
  "lexStep m c =
     (case m of
        LIdle \<Rightarrow> idleStep c
      | LStr \<Rightarrow>
          (if c = CHR 0x22 then Some (LIdle, [TString])
           else if c = CHR 0x5C then Some (LEsc, [])
           else if (of_char c :: nat) < 32 then None
           else Some (LStr, []))
      | LEsc \<Rightarrow>
          (if c \<in> set [CHR 0x22, CHR 0x5C, CHR ''/'', CHR ''b'', CHR ''f'', CHR ''n'', CHR ''r'', CHR ''t'']
           then Some (LStr, [])
           else if c = CHR ''u'' then Some (LUni 4, [])
           else None)
      | LUni k \<Rightarrow>
          (if hexVal c = None then None
           else if k \<le> 1 then Some (LStr, [])
           else Some (LUni (k - 1), []))
      | LNum n \<Rightarrow>
          (case numStep n c of
             Some n' \<Rightarrow> Some (LNum n', [])
           | None \<Rightarrow>
               (if numDone n then
                  (case idleStep c of None \<Rightarrow> None | Some (m', ts) \<Rightarrow> Some (m', TAtom # ts))
                else None))
      | LLit w \<Rightarrow>
          (case w of
             [] \<Rightarrow> None
           | x # xs \<Rightarrow>
               (if c \<noteq> x then None
                else if xs = [] then Some (LIdle, [TAtom])
                else Some (LLit xs, []))))"

fun lexJson :: "lexmode \<Rightarrow> string \<Rightarrow> jtok list option" where
  "lexJson m [] =
     (case m of
        LIdle \<Rightarrow> Some []
      | LNum n \<Rightarrow> (if numDone n then Some [TAtom] else None)
      | _ \<Rightarrow> None)"
| "lexJson m (c # cs) =
     (case lexStep m c of
        None \<Rightarrow> None
      | Some (m', ts) \<Rightarrow> (case lexJson m' cs of None \<Rightarrow> None | Some us \<Rightarrow> Some (ts @ us)))"

datatype jframe = FArr | FObj

datatype jexpect = EValue | EValueOrClose | EKeyOrClose | EKey | EColon | EAfter

definition valueStep :: "jexpect \<Rightarrow> jframe list \<Rightarrow> jtok \<Rightarrow> (jexpect \<times> jframe list) option" where
  "valueStep e st t =
     (case t of
        TString \<Rightarrow> Some (EAfter, st)
      | TAtom \<Rightarrow> Some (EAfter, st)
      | TLBrack \<Rightarrow> Some (EValueOrClose, FArr # st)
      | TLBrace \<Rightarrow> Some (EKeyOrClose, FObj # st)
      | TRBrack \<Rightarrow>
          (case st of
             FArr # st' \<Rightarrow> (if e = EValueOrClose then Some (EAfter, st') else None)
           | _ \<Rightarrow> None)
      | _ \<Rightarrow> None)"

definition gramStep :: "jexpect \<times> jframe list \<Rightarrow> jtok \<Rightarrow> (jexpect \<times> jframe list) option" where
  "gramStep s t =
     (case s of (e, st) \<Rightarrow>
        (case e of
           EValue \<Rightarrow> valueStep e st t
         | EValueOrClose \<Rightarrow> valueStep e st t
         | EKeyOrClose \<Rightarrow>
             (case t of
                TString \<Rightarrow> Some (EColon, st)
              | TRBrace \<Rightarrow> (case st of FObj # st' \<Rightarrow> Some (EAfter, st') | _ \<Rightarrow> None)
              | _ \<Rightarrow> None)
         | EKey \<Rightarrow> (case t of TString \<Rightarrow> Some (EColon, st) | _ \<Rightarrow> None)
         | EColon \<Rightarrow> (case t of TColon \<Rightarrow> Some (EValue, st) | _ \<Rightarrow> None)
         | EAfter \<Rightarrow>
             (case st of
                [] \<Rightarrow> None
              | FArr # st' \<Rightarrow>
                  (case t of TComma \<Rightarrow> Some (EValue, st) | TRBrack \<Rightarrow> Some (EAfter, st')
                   | _ \<Rightarrow> None)
              | FObj # st' \<Rightarrow>
                  (case t of TComma \<Rightarrow> Some (EKey, st) | TRBrace \<Rightarrow> Some (EAfter, st')
                   | _ \<Rightarrow> None))))"

fun gramRun :: "jexpect \<times> jframe list \<Rightarrow> jtok list \<Rightarrow> bool" where
  "gramRun s [] = (s = (EAfter, []))"
| "gramRun s (t # ts) = (case gramStep s t of None \<Rightarrow> False | Some s' \<Rightarrow> gramRun s' ts)"

datatype jkind = JArray | JOther

text \<open>\<open>jsonParse s\<close> is \<open>None\<close> where \<open>JSON.parse(s)\<close> throws.\<close>

definition jsonParse :: "string \<Rightarrow> jkind option" where
  "jsonParse s =
     (case lexJson LIdle s of
        None \<Rightarrow> None
      | Some ts \<Rightarrow>
          (if gramRun (EValue, []) ts
           then Some (if ts \<noteq> [] \<and> hd ts = TLBrack then JArray else JOther)
           else None))"

section \<open>Schemas\<close>

text \<open>
  The types of \<open>page.tsx\<close>. An optional field is an \<open>option\<close>. The fields that no
  function below reads (\<open>dataQuality\<close>, \<open>dataMaturity\<close>, \<open>insights\<close>) are left out. The
  relationship detector builds its records without a \<open>confidence\<close>, so that field is optional
  here.
\<close>

datatype colType = TyString | TyNumber | TyBoolean | TyDate | TyJson | TyArray | TyEmail | TyUrl | TyId

record validationRules =
  vmin :: "jsnum option"
  vmax :: "jsnum option"
  vpattern :: "string option"
  venum :: "string list option"

record columnSchema =
  cname :: string
  ctype :: colType
  required :: bool
  unique :: bool
  validation :: "validationRules option"
  aiDetected :: bool
  confidence :: jsnum
  businessContext :: "string option"

datatype dataType = Clients | Workers | Tasks

datatype relType = OneToMany | ManyToOne | ManyToMany

record relationship =
  rtable :: string
  rcolumn :: string
  rtype :: relType
  rconfidence :: "jsnum option"

record aiClassification =
  entityType :: dataType
  econfidence :: jsnum
  reasoning :: string
  businessDomain :: "string option"

record tableSchema =
  tname :: string
  columns :: "columnSchema list"
  primaryKey :: "string option"
  relationships :: "relationship list"
  classification :: aiClassification

section \<open>The column classifier\<close>

text \<open>
  \<open>detectColumnSchema\<close> of the upload component. The score table \<open>typeScores\<close> is an
  object whose keys are in the order of its literal; \<open>Object.entries\<close> lists them in that
  order. Scores and ratios are exact rationals here and doubles in the program: a comparison
  can differ from the program's only where its two sides are within rounding distance of each
  other.
\<close>

definition scoreOf :: "(colType \<times> jsnum) list \<Rightarrow> colType \<Rightarrow> jsnum" where
  "scoreOf ts t = (case map_of ts t of None \<Rightarrow> NaN | Some x \<Rightarrow> x)"

definition boolValues :: "string list" where
  "boolValues = [''true'', ''false'', ''1'', ''0'', ''yes'', ''no'', ''y'', ''n'']"

definition arrayLike :: "string \<Rightarrow> bool" where
  "arrayLike str = ((startsWith str ''['' \<and> endsWith str '']'') \<or> includesStr str '','')"

definition countMatches :: "(string \<Rightarrow> bool) \<Rightarrow> string list \<Rightarrow> nat" where
  "countMatches p samples = length (filter p samples)"

definition nonEmptyValues :: "string \<Rightarrow> row list \<Rightarrow> jsval list" where
  "nonEmptyValues columnName dat =
     filter (\<lambda>v. \<not> isEmptyCell v) (map (\<lambda>r. getCell r columnName) dat)"

definition typeScores :: "host \<Rightarrow> string \<Rightarrow> row list \<Rightarrow> (colType \<times> jsnum) list" where
  "typeScores h columnName dat =
     (let lowerName = toLowerCase columnName;
          samples = map (toStr h) (take 100 (nonEmptyValues columnName dat));
          n = length samples;
          pct = (\<lambda>p. timesNum (divCount (countMatches p samples) n) 100)
      in [(TyId, plusNum (if includesStr lowerName ''id'' \<or> includesStr lowerName ''key''
                          then 50 else 0)
                    (timesNum (divCount (countMatches idPattern samples) n) 30)),
          (TyNumber, pct (\<lambda>s. \<not> isNaN (parseFloat s) \<and> isFinite (parseFloat s))),
          (TyBoolean, pct (\<lambda>s. toLowerCase s \<in> set boolValues)),
          (TyDate, pct (dateParse h)),
          (TyEmail, pct emailRegex),
          (TyUrl, pct (urlParse h)),
          (TyJson, pct (\<lambda>s. jsonParse s \<noteq> None)),
          (TyArray, pct arrayLike),
          (TyString, Fin 0)])"

text \<open>
  The \<open>reduce\<close> over the entries, with no initial value: the accumulator starts as the first
  entry and is kept only where its score is greater than the next entry's.
\<close>

fun reduceBest :: "(colType \<times> jsnum) list \<Rightarrow> colType \<times> jsnum \<Rightarrow> (colType \<times> jsnum) list
    \<Rightarrow> colType \<times> jsnum" where
  "reduceBest ts a [] = a"
| "reduceBest ts a (b # bs) =
     reduceBest ts (if gtNum (scoreOf ts (fst a)) (scoreOf ts (fst b)) then a else b) bs"

definition bestType :: "(colType \<times> jsnum) list \<Rightarrow> colType" where
  "bestType ts = (case ts of [] \<Rightarrow> TyString | a # bs \<Rightarrow> fst (reduceBest ts a bs))"

text \<open>A \<open>Set\<close> keeps the first occurrence of each value, in insertion order.\<close>

definition uniqueValues :: "jsval list \<Rightarrow> jsval list" where
  "uniqueValues vs = rev (remdups (rev vs))"

definition minNum :: "jsnum list \<Rightarrow> jsnum" where
  "minNum ns = foldl (\<lambda>a b. if gtNum a b then b else a) (Infty True) ns"

definition maxNum :: "jsnum list \<Rightarrow> jsnum" where
  "maxNum ns = foldl (\<lambda>a b. if gtNum b a then b else a) (Infty False) ns"

definition detectValidation :: "host \<Rightarrow> string \<Rightarrow> row list \<Rightarrow> colType \<Rightarrow> validationRules" where
  "detectValidation h columnName dat best =
     (let values = nonEmptyValues columnName dat;
          samples = take 100 values;
          numbers = filter (\<lambda>n. \<not> isNaN n) (map (\<lambda>v. parseFloat (toStr h v)) samples);
          v0 = \<lparr> vmin = None, vmax = None, vpattern = None, venum = None \<rparr>;
          v1 = (if best = TyNumber \<and> numbers \<noteq> []
                then v0 \<lparr> vmin := Some (minNum numbers), vmax := Some (maxNum numbers) \<rparr>
                else v0);
          v2 = (if includesStr (toLowerCase columnName) ''priority'' \<and> best = TyNumber
                then v1 \<lparr> vmin := Some (Fin 1), vmax := Some (Fin 5) \<rparr>
                else v1);
          u = uniqueValues values
      in if length u \<le> 10 \<and> 1 < length u \<and> best = TyString
         then v2 \<lparr> venum := Some (map (toStr h) u) \<rparr>
         else v2)"

text \<open>\<open>falsyCount\<close> is the \<open>nullCount\<close> of the source: the rows where
  \<open>!row[columnName] || row[columnName] === ''\<close>.\<close>

definition falsyCount :: "string \<Rightarrow> row list \<Rightarrow> nat" where
  "falsyCount columnName dat =
     length (filter (\<lambda>r. \<not> truthy (getCell r columnName) \<or> getCell r columnName = Str []) dat)"

definition detectColumnSchema :: "host \<Rightarrow> string \<Rightarrow> row list \<Rightarrow> columnSchema" where
  "detectColumnSchema h columnName dat =
     (let values = nonEmptyValues columnName dat;
          ts = typeScores h columnName dat;
          best = bestType ts;
          conf = overNum (scoreOf ts best) 100;
          req = gtNum (Fin (1 / 10)) (divCount (falsyCount columnName dat) (length dat));
          uniq = (length (uniqueValues values) = length values \<and> 1 < length values);
          v = detectValidation h columnName dat best
      in \<lparr> cname = columnName,
           ctype = (if best = TyString \<and> gtNum (Fin (3 / 10)) conf then TyString else best),
           required = req,
           unique = uniq,
           validation =
             (if vmin v = None \<and> vmax v = None \<and> vpattern v = None \<and> venum v = None
              then None else Some v),
           aiDetected = True,
           confidence = conf,
           businessContext = None \<rparr>)"

section \<open>The entity classifier, the relationship detector and the primary key\<close>

definition nameScore :: "bool \<Rightarrow> nat" where
  "nameScore b = (if b then 40 else 0)"

definition columnScore :: "string list \<Rightarrow> columnSchema list \<Rightarrow> nat" where
  "columnScore keys cols =
     15 * length (filter (\<lambda>c. list_ex (includesStr (toLowerCase (cname c))) keys) cols)"

definition entityScores :: "string \<Rightarrow> columnSchema list \<Rightarrow> string \<Rightarrow> (dataType \<times> nat) list" where
  "entityScores tableName cols fileName =
     (let lowerName = toLowerCase tableName; lowerFileName = toLowerCase fileName
      in [(Clients,
             nameScore (includesStr lowerName ''client'' \<or> includesStr lowerName ''customer''
                        \<or> includesStr lowerFileName ''client'')
             + columnScore [''priority'', ''request'', ''budget''] cols),
          (Workers,
             nameScore (includesStr lowerName ''worker'' \<or> includesStr lowerName ''employee''
                        \<or> includesStr lowerName ''staff'' \<or> includesStr lowerFileName ''worker'')
             + columnScore [''skill'', ''available'', ''capacity'', ''qualification''] cols),
          (Tasks,
             nameScore (includesStr lowerName ''task'' \<or> includesStr lowerName ''job''
                        \<or> includesStr lowerName ''project'' \<or> includesStr lowerFileName ''task'')
             + columnScore [''duration'', ''phase'', ''concurrent'', ''category''] cols)])"

fun reduceEntity :: "dataType \<times> nat \<Rightarrow> (dataType \<times> nat) list \<Rightarrow> dataType \<times> nat" where
  "reduceEntity a [] = a"
| "reduceEntity a (b # bs) = reduceEntity (if snd b < snd a then a else b) bs"

definition classifyEntityType :: "host \<Rightarrow> string \<Rightarrow> columnSchema list \<Rightarrow> string \<Rightarrow> aiClassification" where
  "classifyEntityType h tableName cols fileName =
     (let bestMatch =
            (case entityScores tableName cols fileName of
               [] \<Rightarrow> (Clients, 0)
             | a # bs \<Rightarrow> reduceEntity a bs);
          conf = (of_nat (snd bestMatch) :: rat) / 100
      in \<lparr> entityType = fst bestMatch,
           econfidence = Fin (min conf 1),
           reasoning = ''Detected based on table name \"'' @ tableName @
                       ''\" and column patterns. Confidence: '' @
                       numToString h (roundNum (Fin (conf * 100))) @ ''%'',
           businessDomain = None \<rparr>)"

definition detectRelationships :: "columnSchema list \<Rightarrow> string \<Rightarrow> relationship list" where
  "detectRelationships cols tableName =
     concat (map (\<lambda>c.
        (let colName = toLowerCase (cname c);
             rel = (\<lambda>t. \<lparr> rtable = t, rcolumn = cname c, rtype = ManyToOne, rconfidence = None \<rparr>)
         in (if includesStr colName ''taskid'' \<or> includesStr colName ''task_id''
             then [rel ''tasks''] else []) @
            (if includesStr colName ''workerid'' \<or> includesStr colName ''worker_id''
             then [rel ''workers''] else []) @
            (if includesStr colName ''clientid'' \<or> includesStr colName ''client_id''
             then [rel ''clients''] else []))) cols)"

definition findPrimaryKey :: "columnSchema list \<Rightarrow> string option" where
  "findPrimaryKey cols =
     map_option cname
       (find (\<lambda>c. includesStr (toLowerCase (cname c)) ''id'' \<and> unique c \<and> ctype c = TyId) cols)"

subsection \<open>The candidate order\<close>




subsection \<open>Columns used as concrete inputs\<close>

text \<open>
  A column of five words of which one is a boolean word, a column of boolean words, and a
  column of numeric cells that hold \<open>0\<close>.
\<close>

definition column1 :: "string \<Rightarrow> jsval list \<Rightarrow> row list" where
  \<comment> \<open>a table of one column\<close>
  "column1 k vs = map (\<lambda>v. [(k, v)]) vs"

definition flagData :: "row list" where
  "flagData = column1 ''Flag'' [Str ''yes'', Str ''apple'', Str ''pear'', Str ''plum'', Str ''fig'']"


definition qtyData :: "row list" where
  "qtyData = column1 ''Qty'' [Num (Fin 0), Num (Fin 0), Num (Fin 0)]"

section \<open>The value normalizer\<close>

text \<open>
  \<open>boolMap[key]\<close> is a property read on an object literal: a key that the literal does not
  have is looked up on \<open>Object.prototype\<close>. After \<open>toLowerCase\<close> the inherited names
  that can be hit are \<open>constructor\<close> and \<open>__proto__\<close>; every other absent key reads
  \<open>undefined\<close>.
\<close>

definition boolMapGet :: "string \<Rightarrow> jsval" where
  "boolMapGet k =
     (case map_of [(''true'', True), (''false'', False), (''1'', True), (''0'', False),
                   (''yes'', True), (''no'', False), (''y'', True), (''n'', False)] k of
        Some b \<Rightarrow> Bool b
      | None \<Rightarrow>
          if k = ''constructor'' then Other ''function'' ''function Object() { [native code] }''
          else if k = ''__proto__'' then Other ''object'' ''[object Object]''
          else Undefined)"

text \<open>\<open>orElse x d\<close> is \<open>x ?? d\<close>.\<close>

definition orElse :: "jsval \<Rightarrow> jsval \<Rightarrow> jsval" where
  "orElse x d = (if x = Null \<or> x = Undefined then d else x)"

definition quoteTokens :: "string \<Rightarrow> string" where
  \<comment> \<open>\<open>`[${s.split(',').map(s => `"${s.trim()}"`).join(',')}]`\<close>\<close>
  "quoteTokens s =
     ''['' @ joinWith '','' (map (\<lambda>t. [CHR 0x22] @ trim t @ [CHR 0x22]) (splitOn CHR '','' s)) @ '']''"

definition cleanValue :: "host \<Rightarrow> jsval \<Rightarrow> columnSchema \<Rightarrow> jsval" where
  "cleanValue h v col =
     (if isEmptyCell v then Str []
      else
        (let stringValue = trim (toStr h v)
         in case ctype col of
              TyNumber \<Rightarrow>
                (let numValue = parseFloat stringValue
                 in if isNaN numValue then (if required col then Num (Fin 0) else Str [])
                    else Num numValue)
            | TyBoolean \<Rightarrow> orElse (boolMapGet (toLowerCase stringValue)) (Bool False)
            | TyJson \<Rightarrow>
                (case jsonParse stringValue of
                   Some k \<Rightarrow> Str stringValue
                 | None \<Rightarrow> Str ''{}'')
            | TyArray \<Rightarrow>
                (case jsonParse (replaceAll CHR 0x27 [CHR 0x22] stringValue) of
                   Some k \<Rightarrow>
                     (if k = JArray then Str stringValue else Str (''['' @ stringValue @ '']''))
                 | None \<Rightarrow>
                     (if includesStr stringValue '','' then Str (quoteTokens stringValue)
                      else Str stringValue))
            | _ \<Rightarrow> Str stringValue))"

text \<open>A column of a given type, for concrete inputs: required, with no validation rules.\<close>

definition demoColumn :: "colType \<Rightarrow> columnSchema" where
  "demoColumn t =
     \<lparr> cname = ''Value'', ctype = t, required = True, unique = False, validation = None,
       aiDetected = True, confidence = Fin 1, businessContext = None \<rparr>"

section \<open>Schema synthesis\<close>

text \<open>
  \<open>performAISchemaDetection\<close>: the column names are the keys of the rows in order of first
  appearance; \<open>None\<close> is the error \<open>No data found in file\<close>.
\<close>

definition allColumns :: "row list \<Rightarrow> string list" where
  "allColumns dat = rev (remdups (rev (concat (map (map fst) dat))))"

definition cleanRow :: "host \<Rightarrow> columnSchema list \<Rightarrow> row \<Rightarrow> row" where
  "cleanRow h cols r = map (\<lambda>c. (cname c, cleanValue h (getCell r (cname c)) c)) cols"

definition performAISchemaDetection ::
    "host \<Rightarrow> row list \<Rightarrow> string \<Rightarrow> string \<Rightarrow> (row list \<times> tableSchema) option" where
  "performAISchemaDetection h dat tableName fileName =
     (if dat = [] then None
      else
        (let cols = map (\<lambda>columnName. detectColumnSchema h columnName dat) (allColumns dat)
         in Some (map (cleanRow h cols) dat,
                  \<lparr> tname = tableName,
                    columns = cols,
                    primaryKey = findPrimaryKey cols,
                    relationships = detectRelationships cols tableName,
                    classification = classifyEntityType h tableName cols fileName \<rparr>)))"

section \<open>The validation engine\<close>

datatype severity = SevError | SevWarning | SevInfo

datatype impact = Low | Medium | High | Critical

record validationError =
  vid :: string
  vrow :: nat
  vcolumn :: string
  message :: string
  vseverity :: severity
  vtype :: string
  suggestion :: "string option"
  autoFixable :: "bool option"
  aiConfidence :: "jsnum option"
  businessImpact :: "impact option"

text \<open>\<open>orText s d\<close> is \<open>s || d\<close> on an optional text.\<close>

definition orText :: "string option \<Rightarrow> string \<Rightarrow> string" where
  "orText s d = (case s of None \<Rightarrow> d | Some t \<Rightarrow> if t = [] then d else t)"

definition validateColumnType ::
    "host \<Rightarrow> jsval \<Rightarrow> columnSchema \<Rightarrow> nat \<Rightarrow> string \<Rightarrow> validationError option" where
  "validateColumnType h v col index tableName =
     (let errorId = tableName @ ''-'' @ showNat index @ ''-'' @ cname col
      in case ctype col of
           TyNumber \<Rightarrow>
             (if isNaN (parseFloat (toStr h v)) then
                Some \<lparr> vid = errorId @ ''-type'',
                       vrow = index,
                       vcolumn = cname col,
                       message = ''Expected number for '' @
                                 orText (businessContext col) ''numeric field'' @
                                 '', got: '' @ typeof v,
                       vseverity = SevError,
                       vtype = ''type_mismatch'',
                       suggestion = Some ''Enter a valid number'',
                       autoFixable = Some True,
                       aiConfidence = Some (Fin (9 / 10)),
                       businessImpact = Some Medium \<rparr>
              else None)
         | TyEmail \<Rightarrow>
             (if \<not> emailRegex (toStr h v) then
                Some \<lparr> vid = errorId @ ''-type'',
                       vrow = index,
                       vcolumn = cname col,
                       message = ''Invalid email format - this could impact communication workflows'',
                       vseverity = SevError,
                       vtype = ''type_mismatch'',
                       suggestion = Some ''Enter a valid email address'',
                       autoFixable = Some False,
                       aiConfidence = Some (Fin (19 / 20)),
                       businessImpact = Some High \<rparr>
              else None)
         | _ \<Rightarrow> None)"

definition requiredError :: "nat \<Rightarrow> string \<Rightarrow> tableSchema \<Rightarrow> columnSchema \<Rightarrow> validationError" where
  "requiredError index tableName schema col =
     \<lparr> vid = tableName @ ''-'' @ showNat index @ ''-'' @ cname col @ ''-required'',
       vrow = index,
       vcolumn = cname col,
       message = cname col @ '' is required for '' @
                 orText (businessDomain (classification schema)) ''business'' @ '' operations'',
       vseverity = SevError,
       vtype = ''missing_required'',
       suggestion = Some (''Please provide a value for '' @ cname col),
       autoFixable = Some (ctype col = TyNumber \<or> ctype col = TyBoolean),
       aiConfidence = Some (Fin (19 / 20)),
       businessImpact =
         Some (if includesStr (toLowerCase (cname col)) ''id'' then Critical else High) \<rparr>"

definition validateRowAgainstSchema ::
    "host \<Rightarrow> row \<Rightarrow> nat \<Rightarrow> string \<Rightarrow> tableSchema \<Rightarrow> validationError list" where
  "validateRowAgainstSchema h r index tableName schema =
     concat (map (\<lambda>col.
        (let v = getCell r (cname col)
         in (if required col \<and> (\<not> truthy v \<or> v = Str [])
             then [requiredError index tableName schema col] else []) @
            (if truthy v \<and> v \<noteq> Str []
             then (case validateColumnType h v col index tableName of
                     None \<Rightarrow> [] | Some e \<Rightarrow> [e])
             else []))) (columns schema))"

text \<open>
  The application state of \<open>page.tsx\<close> that validation reads and writes: the tables, their
  schemas and the list of findings. \<open>Object.entries\<close> lists a record in insertion order. A
  table that is not loaded reads as \<open>undefined\<close>, which \<open>|| []\<close> turns into no rows.
  The handlers also feed the rule suggestions, the insights and the activity log; these are
  other state variables that validation does not read, and they are left out.
\<close>

record appState =
  tables :: "(string \<times> row list) list"
  schemas :: "(string \<times> tableSchema) list"
  validationErrors :: "validationError list"

definition rowsOf :: "(string \<times> row list) list \<Rightarrow> string \<Rightarrow> row list" where
  "rowsOf dat t = (case map_of dat t of None \<Rightarrow> [] | Some rs \<Rightarrow> rs)"

definition indexed :: "'a list \<Rightarrow> (nat \<times> 'a) list" where
  "indexed xs = zip [0 ..< length xs] xs"

definition confidencePercent :: "host \<Rightarrow> jsnum option \<Rightarrow> string" where
  \<comment> \<open>\<open>Math.round(relationship.confidence * 100)\<close> as text; \<open>undefined * 100\<close> is \<open>NaN\<close>\<close>
  "confidencePercent h c =
     numToString h (case c of None \<Rightarrow> NaN | Some n \<Rightarrow> roundNum (timesNum n 100))"

definition refError :: "host \<Rightarrow> string \<Rightarrow> nat \<Rightarrow> relationship \<Rightarrow> jsval \<Rightarrow> validationError" where
  "refError h tableName index rel v =
     \<lparr> vid = tableName @ ''-'' @ showNat index @ ''-'' @ rcolumn rel @ ''-ref'',
       vrow = index,
       vcolumn = rcolumn rel,
       message = ''Broken relationship: '' @ toStr h v @ '' not found in '' @ rtable rel @
                 '' ('' @ confidencePercent h (rconfidence rel) @ ''% confidence)'',
       vseverity = SevError,
       vtype = ''unknown_reference'',
       suggestion = Some (''Remove '' @ toStr h v @ '' or add corresponding record in '' @ rtable rel),
       autoFixable = Some False,
       aiConfidence = rconfidence rel,
       businessImpact = Some High \<rparr>"

definition relationErrors ::
    "host \<Rightarrow> (string \<times> row list) list \<Rightarrow> string \<Rightarrow> relationship \<Rightarrow> validationError list" where
  "relationErrors h dat tableName rel =
     (let sourceData = rowsOf dat tableName;
          targetData = rowsOf dat (rtable rel);
          targetIds = set (map (\<lambda>r. getCell r (rcolumn rel)) targetData)
      in concat (map (\<lambda>(index, r).
           (let v = getCell r (rcolumn rel)
            in if truthy v \<and> v \<notin> targetIds then [refError h tableName index rel v] else []))
           (indexed sourceData)))"

definition validateCrossReferences ::
    "host \<Rightarrow> (string \<times> tableSchema) list \<Rightarrow> (string \<times> row list) list \<Rightarrow> validationError list" where
  "validateCrossReferences h scs dat =
     concat (map (\<lambda>(tableName, schema).
        concat (map (relationErrors h dat tableName) (relationships schema))) scs)"

definition burnoutError :: "host \<Rightarrow> string \<Rightarrow> nat \<Rightarrow> columnSchema \<Rightarrow> jsnum \<Rightarrow> validationError" where
  "burnoutError h tableName index loadColumn load =
     \<lparr> vid = tableName @ ''-'' @ showNat index @ ''-burnout-risk'',
       vrow = index,
       vcolumn = cname loadColumn,
       message = ''High burnout risk detected: Load of '' @ numToString h load @
                 '' exceeds recommended threshold'',
       vseverity = SevWarning,
       vtype = ''burnout_risk'',
       suggestion = Some ''Consider redistributing workload or adding team members'',
       autoFixable = Some False,
       aiConfidence = Some (Fin (17 / 20)),
       businessImpact = Some High \<rparr>"

definition isLoadColumn :: "columnSchema \<Rightarrow> bool" where
  "isLoadColumn col =
     (includesStr (toLowerCase (cname col)) ''load'' \<or>
      includesStr (toLowerCase (cname col)) ''capacity'')"

definition burnoutErrors ::
    "host \<Rightarrow> (string \<times> row list) list \<Rightarrow> string \<Rightarrow> tableSchema \<Rightarrow> validationError list" where
  "burnoutErrors h dat tableName schema =
     (if entityType (classification schema) = Workers then
        concat (map (\<lambda>(index, r).
          (case find isLoadColumn (columns schema) of
             None \<Rightarrow> []
           | Some loadColumn \<Rightarrow>
               (if truthy (getCell r (cname loadColumn)) then
                  (let load = parseInt (toStr h (getCell r (cname loadColumn)))
                   in if gtNum load (Fin 8) then [burnoutError h tableName index loadColumn load]
                      else [])
                else [])))
          (indexed (rowsOf dat tableName)))
      else [])"

definition validateAdvancedConstraints ::
    "host \<Rightarrow> (string \<times> tableSchema) list \<Rightarrow> (string \<times> row list) list \<Rightarrow> validationError list" where
  "validateAdvancedConstraints h scs dat =
     concat (map (\<lambda>(tableName, schema). burnoutErrors h dat tableName schema) scs)"

definition validateBusinessLogic :: "validationError list" where
  "validateBusinessLogic = []"

text \<open>
  \<open>runValidation\<close> runs inside an event handler: \<open>data\<close> and \<open>schemas\<close> are the values of
  the render in which the handler was created, that is, the state before the handler's own
  updates; the updater given to \<open>setValidationErrors\<close> is applied to the current list. The
  model returns the new list.
\<close>

definition runValidation ::
    "host \<Rightarrow> appState \<Rightarrow> string \<Rightarrow> row list \<Rightarrow> tableSchema \<Rightarrow> validationError list" where
  "runValidation h st tableName dataToValidate schema =
     (let errors =
            concat (map (\<lambda>(index, r). validateRowAgainstSchema h r index tableName schema)
                      (indexed dataToValidate)) @
            validateCrossReferences h (schemas st) (tables st) @
            validateAdvancedConstraints h (schemas st) (tables st) @
            validateBusinessLogic
      in filter (\<lambda>e. \<not> startsWith (vid e) tableName) (validationErrors st) @ errors)"

definition handleDataUpload :: "host \<Rightarrow> appState \<Rightarrow> string \<Rightarrow> row list \<Rightarrow> tableSchema \<Rightarrow> appState" where
  "handleDataUpload h st tableName newData detectedSchema =
     \<lparr> tables = AList.update tableName newData (tables st),
       schemas = AList.update tableName detectedSchema (schemas st),
       validationErrors = runValidation h st tableName newData detectedSchema \<rparr>"

text \<open>
  \<open>updateData\<close>. \<open>None\<close> is the \<open>TypeError\<close> of reading \<open>.map\<close> or an index of a
  table that is not loaded. A row index past the end leaves the rows as they are and reads
  \<open>undefined\<close>, whose spread is the empty record.
\<close>

definition updateData ::
    "host \<Rightarrow> appState \<Rightarrow> string \<Rightarrow> nat \<Rightarrow> string \<Rightarrow> jsval \<Rightarrow> appState option" where
  "updateData h st tableName rowIndex field v =
     (case map_of (tables st) tableName of
        None \<Rightarrow> None
      | Some rs \<Rightarrow>
          (let newRows = map (\<lambda>(index, r). if index = rowIndex then AList.update field v r else r)
                           (indexed rs);
               newTables = AList.update tableName newRows (tables st)
           in case map_of (schemas st) tableName of
                None \<Rightarrow> Some (st \<lparr> tables := newTables \<rparr>)
              | Some schema \<Rightarrow>
                  (let updatedRow =
                         AList.update field v (if rowIndex < length rs then rs ! rowIndex else [])
                   in Some (st \<lparr> tables := newTables,
                                 validationErrors :=
                                   runValidation h st tableName [updatedRow] schema \<rparr>))))"

text \<open>
  \<open>applyAutoFix\<close>. \<open>fixedValue\<close> is the \<open>switch\<close>: \<open>None\<close> where the source returns
  early or leaves \<open>fixedValue\<close> undefined, and then the state is unchanged.
\<close>

definition findColumn :: "(string \<times> tableSchema) list \<Rightarrow> string \<Rightarrow> string \<Rightarrow> columnSchema option" where
  \<comment> \<open>\<open>schemas[tableName]?.columns.find(col => col.name === column)\<close>\<close>
  "findColumn scs tableName column =
     (case map_of scs tableName of
        None \<Rightarrow> None
      | Some schema \<Rightarrow> find (\<lambda>col. cname col = column) (columns schema))"

definition errorTable :: "validationError \<Rightarrow> string" where
  \<comment> \<open>\<open>error.id.split('-')[0]\<close>\<close>
  "errorTable e = takeWhile (\<lambda>c. c \<noteq> CHR ''-'') (vid e)"

definition fixedValue :: "(string \<times> tableSchema) list \<Rightarrow> validationError \<Rightarrow> jsval option" where
  "fixedValue scs e =
     (let col = findColumn scs (errorTable e) (vcolumn e);
          rules = (case col of None \<Rightarrow> None | Some c \<Rightarrow> validation c)
      in if vtype e = ''out_of_range'' then
           (case rules of
              None \<Rightarrow> None
            | Some r \<Rightarrow>
                (case vmin r of
                   Some lo \<Rightarrow> Some (Num lo)
                 | None \<Rightarrow> (case vmax r of Some hi \<Rightarrow> Some (Num hi) | None \<Rightarrow> None)))
         else if vtype e = ''type_mismatch'' then
           (case col of
              None \<Rightarrow> None
            | Some c \<Rightarrow>
                (if ctype c = TyBoolean then Some (Str ''false'')
                 else if ctype c = TyNumber then Some (Num (Fin 0))
                 else None))
         else if vtype e = ''malformed_json'' then Some (Str ''{}'')
         else if vtype e = ''missing_required'' then
           (case col of
              None \<Rightarrow> None
            | Some c \<Rightarrow>
                (if ctype c = TyString then Some (Str ''default'')
                 else if ctype c = TyBoolean then Some (Str ''false'')
                 else if ctype c = TyNumber then Some (Num (Fin 1))
                 else None))
         else None)"

definition applyAutoFix :: "host \<Rightarrow> appState \<Rightarrow> validationError \<Rightarrow> appState option" where
  "applyAutoFix h st e =
     (case fixedValue (schemas st) e of
        None \<Rightarrow> Some st
      | Some v \<Rightarrow> updateData h st (errorTable e) (vrow e) (vcolumn e) v)"

section \<open>Notions used in the statements\<close>

text \<open>
  The values of the target table in the relationship's column: the set \<open>targetIds\<close> of
  \<open>validateCrossReferences\<close>.
\<close>

definition targetValues :: "(string \<times> row list) list \<Rightarrow> relationship \<Rightarrow> jsval set" where
  "targetValues dat rel = set (map (\<lambda>r. getCell r (rcolumn rel)) (rowsOf dat (rtable rel)))"

section \<open>Concrete tables\<close>

definition mkColumn :: "string \<Rightarrow> colType \<Rightarrow> validationRules option \<Rightarrow> columnSchema" where
  \<comment> \<open>a required column\<close>
  "mkColumn n t v =
     \<lparr> cname = n, ctype = t, required = True, unique = False, validation = v,
       aiDetected = True, confidence = Fin 1, businessContext = None \<rparr>"

definition mkSchema ::
    "string \<Rightarrow> dataType \<Rightarrow> columnSchema list \<Rightarrow> relationship list \<Rightarrow> tableSchema" where
  "mkSchema n t cols rels =
     \<lparr> tname = n, columns = cols, primaryKey = None, relationships = rels,
       classification =
         \<lparr> entityType = t, econfidence = Fin (2 / 5), reasoning = [], businessDomain = None \<rparr> \<rparr>"

definition clientLink :: relationship where
  \<comment> \<open>what \<open>detectRelationships\<close> gives for a column \<open>ClientID\<close>\<close>
  "clientLink = \<lparr> rtable = ''clients'', rcolumn = ''ClientID'', rtype = ManyToOne, rconfidence = None \<rparr>"

definition clientsSchema :: tableSchema where
  "clientsSchema = mkSchema ''clients'' Clients [mkColumn ''ClientID'' TyId None] []"

definition tasksSchema :: tableSchema where
  "tasksSchema =
     mkSchema ''tasks'' Tasks [mkColumn ''TaskID'' TyId None, mkColumn ''ClientID'' TyId None]
       [clientLink]"

definition workersSchema :: tableSchema where
  "workersSchema =
     mkSchema ''workers'' Workers
       [mkColumn ''WorkerID'' TyId None, mkColumn ''MaxLoad'' TyNumber None,
        mkColumn ''Capacity'' TyNumber None] []"

definition demoSchemas :: "(string \<times> tableSchema) list" where
  "demoSchemas = [(''clients'', clientsSchema), (''tasks'', tasksSchema), (''workers'', workersSchema)]"

definition clientsRows :: "row list" where
  "clientsRows = [[(''ClientID'', Str ''C1'')]]"

definition tasksRows :: "row list" where
  "tasksRows = [[(''TaskID'', Str ''T1''), (''ClientID'', Str ''C999'')]]"

definition workersRows :: "row list" where
  "workersRows = [[(''WorkerID'', Str ''W1''), (''MaxLoad'', Num (Fin 5)), (''Capacity'', Num (Fin 12))]]"

definition demoTables :: "(string \<times> row list) list" where
  "demoTables = [(''clients'', clientsRows), (''tasks'', tasksRows), (''workers'', workersRows)]"

text \<open>The example of the specification: a workers table with a column \<open>MaxLoadPerPhase\<close>.\<close>

definition loadSchema :: tableSchema where
  "loadSchema =
     mkSchema ''workers'' Workers
       [mkColumn ''WorkerID'' TyId None, mkColumn ''MaxLoadPerPhase'' TyNumber None] []"

definition loadTables :: "(string \<times> row list) list" where
  "loadTables = [(''workers'', [[(''WorkerID'', Str ''W1''), (''MaxLoadPerPhase'', Str ''12'')]])]"

text \<open>A task that refers to the client numbered \<open>0\<close>, which the clients table does not have.\<close>

definition zeroRefTables :: "(string \<times> row list) list" where
  "zeroRefTables =
     [(''clients'', [[(''ClientID'', Num (Fin 7))]]),
      (''tasks'', [[(''TaskID'', Str ''T1''), (''ClientID'', Num (Fin 0))]])]"

text \<open>The three tables uploaded one after the other into the empty application.\<close>

definition emptyState :: appState where
  "emptyState = \<lparr> tables = [], schemas = [], validationErrors = [] \<rparr>"

definition loadedState :: appState where
  "loadedState =
     handleDataUpload refHost
       (handleDataUpload refHost
          (handleDataUpload refHost emptyState ''clients'' clientsRows clientsSchema)
          ''tasks'' tasksRows tasksSchema)
       ''workers'' workersRows workersSchema"

text \<open>A table with a required text column, in two states.\<close>

definition notesSchema :: tableSchema where
  "notesSchema = mkSchema ''notes'' Clients [mkColumn ''Name'' TyString None] []"

definition notesA :: appState where
  "notesA = handleDataUpload refHost emptyState ''notes''
              [[(''Name'', Str ''a'')], [(''Name'', Str ''x'')]] notesSchema"

definition notesB :: appState where
  "notesB = handleDataUpload refHost emptyState ''notes''
              [[(''Name'', Str ''b'')], [(''Name'', Str [])]] notesSchema"

text \<open>A table with a number column whose bounds are 10 and 20, and a boolean column.\<close>

definition scoreColumn :: columnSchema where
  "scoreColumn =
     mkColumn ''Score'' TyNumber
       (Some \<lparr> vmin = Some (Fin 10), vmax = Some (Fin 20), vpattern = None, venum = None \<rparr>)"

definition activeColumn :: columnSchema where
  "activeColumn = mkColumn ''Active'' TyBoolean None"

definition scoresSchema :: tableSchema where
  "scoresSchema = mkSchema ''scores'' Clients [scoreColumn, activeColumn] []"

definition scoresState :: appState where
  "scoresState = handleDataUpload refHost emptyState ''scores''
                   [[(''Score'', Str []), (''Active'', Str [])]] scoresSchema"

text \<open>The two findings of that state, as \<open>validateRowAgainstSchema\<close> builds them.\<close>

definition scoreFinding :: validationError where
  "scoreFinding = requiredError 0 ''scores'' scoresSchema scoreColumn"

definition activeFinding :: validationError where
  "activeFinding = requiredError 0 ''scores'' scoresSchema activeColumn"

section \<open>Properties of the CSV export\<close>

lemma showNat_0: "showNat 0 = ''0''"
  by (simp add: showNat.simps [of 0])

lemma toStr_zero: "toStr h (Num (Fin 0)) = ''0''"
  by (simp add: isInt_def showInt_def showNat_0)

lemma csvCell_falsy: "\<not> truthy (getCell r header) \<Longrightarrow> csvCell h r header = []"
  by (simp add: csvCell_def)

text \<open>
  C9, as stated, fails: a cell holding the number \<open>0\<close> has no comma, its text is \<open>0\<close>,
  and the export writes the empty field instead.
\<close>

theorem C9_csv_as_is_counterexample:
  "\<not> includesStr (toStr refHost (Num (Fin 0))) '','' \<and>
   toStr refHost (Num (Fin 0)) = ''0'' \<and>
   csvCell refHost [(''Qty'', Num (Fin 0))] ''Qty'' = []"
  by (simp add: isInt_def showInt_def showNat_0 csvCell_def getCell_def)

text \<open>
  C9, amended: a cell whose value is truthy, or the empty string, is written as its text
  \<open>String(value)\<close> when that text has no comma, and otherwise as that text between double
  quotes with every double quote in it doubled. On any host.
\<close>

theorem C9_csv_quoting:
  assumes "truthy (getCell r header) \<or> getCell r header = Str []"
  shows "csvCell h r header =
           (if includesStr (toStr h (getCell r header)) '',''
            then [CHR 0x22] @
                 concat (map (\<lambda>c. if c = CHR 0x22 then [CHR 0x22, CHR 0x22] else [c])
                           (toStr h (getCell r header))) @
                 [CHR 0x22]
            else toStr h (getCell r header))"
  using assms by (auto simp: csvCell_def replaceAll_def Let_def)

text \<open>The example of the specification: \<open>Acme, Inc.\<close> is exported as \<open>"Acme, Inc."\<close>.\<close>

theorem C9_csv_quoting_witness:
  "truthy (getCell [(''Name'', Str ''Acme, Inc.'')] ''Name'') \<and>
   csvCell refHost [(''Name'', Str ''Acme, Inc.'')] ''Name'' = [CHR 0x22] @ ''Acme, Inc.'' @ [CHR 0x22] \<and>
   downloadCSV refHost [[(''Name'', Str ''Acme, Inc.'')]] =
     Some (''Name'' @ [CHR 0x0A] @ [CHR 0x22] @ ''Acme, Inc.'' @ [CHR 0x22])"
proof -
  have t: "truthy (getCell [(''Name'', Str ''Acme, Inc.'')] ''Name'')"
    by (simp add: getCell_def)
  have c: "csvCell refHost [(''Name'', Str ''Acme, Inc.'')] ''Name'' =
             [CHR 0x22] @ ''Acme, Inc.'' @ [CHR 0x22]"
    using C9_csv_quoting [of "[(''Name'', Str ''Acme, Inc.'')]" "''Name''" refHost] t
    by (simp add: getCell_def)
  show ?thesis using t c by (simp add: downloadCSV_def)
qed

text \<open>
  C10: a cell whose stored value is the number \<open>0\<close>, the boolean \<open>false\<close>, \<open>null\<close>,
  \<open>undefined\<close> or the empty string is exported as the empty field, so the export of a
  \<open>0\<close> or a \<open>false\<close> is the export of a missing value.
\<close>

theorem C10_csv_falsy_empty:
  assumes "getCell r header \<in> {Num (Fin 0), Bool False, Null, Undefined, Str []}"
  shows "csvCell h r header = [] \<and>
         csvCell h r header = csvCell h (AList.update header Undefined r) header"
proof -
  have "\<not> truthy (getCell r header)" using assms by auto
  then have a: "csvCell h r header = []" by (rule csvCell_falsy)
  have "getCell (AList.update header Undefined r) header = Undefined"
    by (simp add: getCell_def update_conv')
  then have "csvCell h (AList.update header Undefined r) header = []"
    by (simp add: csvCell_falsy)
  with a show ?thesis by simp
qed

theorem C10_csv_falsy_empty_witness:
  "getCell [(''Name'', Str ''Ann''), (''Qty'', Num (Fin 0))] ''Qty''
     \<in> {Num (Fin 0), Bool False, Null, Undefined, Str []} \<and>
   csvCell refHost [(''Name'', Str ''Ann''), (''Qty'', Num (Fin 0))] ''Qty'' = [] \<and>
   downloadCSV refHost [[(''Name'', Str ''Ann''), (''Qty'', Num (Fin 0))]] =
     Some (''Name,Qty'' @ [CHR 0x0A] @ ''Ann,'')"
proof -
  have m: "getCell [(''Name'', Str ''Ann''), (''Qty'', Num (Fin 0))] ''Qty''
             \<in> {Num (Fin 0), Bool False, Null, Undefined, Str []}"
    by (simp add: getCell_def)
  have c: "csvCell refHost [(''Name'', Str ''Ann''), (''Qty'', Num (Fin 0))] ''Qty'' = []"
    using C10_csv_falsy_empty [OF m, of refHost] by simp
  have n: "csvCell refHost [(''Name'', Str ''Ann''), (''Qty'', Num (Fin 0))] ''Name'' = ''Ann''"
    by (simp add: csvCell_def getCell_def)
  show ?thesis using m c n by (simp add: downloadCSV_def)
qed

section \<open>Properties of the column classifier\<close>














text \<open>
  C1: the emitted type is \<open>bestType === 'string' && confidence < 0.3 ? 'string' : bestType\<close>,
  which is \<open>bestType\<close> whatever the confidence (lemma \<open>ctype_is_best\<close>). On a column
  where one value in five is a boolean word and nothing else matches, the winner is
  \<open>boolean\<close> with confidence 0.2, and \<open>boolean\<close> is emitted.
\<close>

theorem C1_low_confidence_type_kept:
  "bestType (typeScores refHost ''Flag'' flagData) = TyBoolean \<and>
   confidence (detectColumnSchema refHost ''Flag'' flagData) = Fin (1 / 5) \<and>
   gtNum (Fin (3 / 10)) (confidence (detectColumnSchema refHost ''Flag'' flagData)) \<and>
   ctype (detectColumnSchema refHost ''Flag'' flagData) = TyBoolean"
  by code_simp

text \<open>
  The required flag as the code computes it: the rows counted are those whose value is falsy,
  which includes the number \<open>0\<close> and the boolean \<open>false\<close>.
\<close>

lemma required_iff:
  "required (detectColumnSchema h c d) \<longleftrightarrow> d \<noteq> [] \<and> 10 * falsyCount c d < length d"
proof (cases "d = []")
  case True
  then show ?thesis by (simp add: detectColumnSchema_def Let_def divCount_def falsyCount_def)
next
  case False
  then have "0 < (of_nat (length d) :: rat)" by simp
  then have "(of_nat (falsyCount c d) / of_nat (length d) < (1 / 10 :: rat)) \<longleftrightarrow>
        (of_nat (falsyCount c d) * 10 < (of_nat (length d) :: rat))"
    by (simp add: field_simps)
  also have "\<dots> \<longleftrightarrow> 10 * falsyCount c d < length d"
    by (metis (no_types, opaque_lifting) mult.commute of_nat_less_iff of_nat_mult of_nat_numeral)
  finally show ?thesis using False
    by (simp add: detectColumnSchema_def Let_def divCount_def)
qed

text \<open>
  C7: on a column of three cells that all hold the number \<open>0\<close>, no cell is missing or
  empty (the sample of non-empty values has all three), yet all three rows are counted and
  the flag is false.
\<close>

theorem C7_zero_counted_as_missing:
  "nonEmptyValues ''Qty'' qtyData = [Num (Fin 0), Num (Fin 0), Num (Fin 0)] \<and>
   length qtyData = 3 \<and>
   required (detectColumnSchema refHost ''Qty'' qtyData) = False"
  by code_simp

section \<open>Properties of the value normalizer\<close>

lemma last_dropWhile: "dropWhile P xs \<noteq> [] \<Longrightarrow> last (dropWhile P xs) = last xs"
  by (induction xs) (auto split: if_splits)

lemma trim_shape:
  "trim s = [] \<or> (\<not> isSpace (hd (trim s)) \<and> \<not> isSpace (last (trim s)))"
proof (cases "trim s = []")
  case True then show ?thesis by simp
next
  case False
  let ?u = "dropWhile isSpace s"
  let ?w = "dropWhile isSpace (rev ?u)"
  have t: "trim s = rev ?w" by (simp add: trim_def)
  have w: "?w \<noteq> []" using False t by simp
  have u: "?u \<noteq> []"
  proof
    assume "?u = []"
    then have "?w = dropWhile isSpace (rev [])" by (rule arg_cong)
    with w show False by simp
  qed
  have "\<not> isSpace (hd ?w)" using w by (rule hd_dropWhile)
  then have l: "\<not> isSpace (last (trim s))" using t w by (simp add: last_rev)
  have "last ?w = last (rev ?u)" using w by (rule last_dropWhile)
  then have "hd (trim s) = hd ?u" using t w u by (simp add: hd_rev last_rev)
  moreover have "\<not> isSpace (hd ?u)" using u by (rule hd_dropWhile)
  ultimately show ?thesis using l by simp
qed

lemma trim_fixed:
  assumes "t = [] \<or> (\<not> isSpace (hd t) \<and> \<not> isSpace (last t))"
  shows "trim t = t"
proof (cases "t = []")
  case True then show ?thesis by (simp add: trim_def)
next
  case False
  then have h: "\<not> isSpace (hd t)" and l: "\<not> isSpace (last t)" using assms by auto
  have a: "dropWhile isSpace t = t" using False h by (cases t) auto
  obtain y ys where r: "rev t = y # ys" using False by (cases "rev t") auto
  have "hd (rev t) = last t" using False by (simp add: hd_rev)
  then have "y = last t" using r by simp
  then have b: "dropWhile isSpace (rev t) = rev t" using l by (simp add: r)
  show ?thesis by (simp add: trim_def a b)
qed

lemma trim_trim: "trim (trim s) = trim s"
  using trim_shape by (rule trim_fixed)

lemma digit_nth:
  assumes "d < 10"
  shows "digitVal (''0123456789'' ! d) = d \<and> isDigit (''0123456789'' ! d) \<and>
         \<not> isSpace (''0123456789'' ! d) \<and> ''0123456789'' ! d \<noteq> CHR ''-'' \<and>
         ''0123456789'' ! d \<noteq> CHR ''+'' \<and> ''0123456789'' ! d \<noteq> CHR ''I''"
proof -
  from assms have "d \<in> {0, 1, 2, 3, 4, 5, 6, 7, 8, 9}" by auto
  then show ?thesis
    by (elim insertE emptyE) (simp_all add: digitVal_def isDigit_def isSpace_def)
qed

lemma digitsVal_snoc: "digitsVal (ds @ [c]) = 10 * digitsVal ds + digitVal c"
  by (simp add: digitsVal_def)

lemma showNat_digits:
  "showNat n \<noteq> [] \<and> list_all isDigit (showNat n) \<and> digitsVal (showNat n) = n"
proof (induction n rule: showNat.induct)
  case (1 n)
  show ?case
  proof (cases "n < 10")
    case True
    then have "showNat n = [''0123456789'' ! n]" by (simp add: showNat.simps [of n])
    then show ?thesis using digit_nth [OF True] by (simp add: digitsVal_def)
  next
    case False
    have m: "n mod 10 < 10" by simp
    have s: "showNat n = showNat (n div 10) @ [''0123456789'' ! (n mod 10)]"
      using False by (simp add: showNat.simps [of n])
    show ?thesis
      using "1.IH" [OF False] digit_nth [OF m] unfolding s
      by (simp add: digitsVal_snoc)
  qed
qed

lemma unsignedFloat_digits:
  assumes "ds \<noteq> []" and "list_all isDigit ds"
  shows "unsignedFloat ds = Fin (of_nat (digitsVal ds))"
proof -
  have tw: "takeWhile isDigit ds = ds" and dw: "dropWhile isDigit ds = []"
    using assms(2) by (simp_all add: list_all_iff)
  obtain c cs where ds: "ds = c # cs" using assms(1) by (cases ds) auto
  then have "isDigit c" using assms(2) by simp
  then have "c \<noteq> CHR ''I''" by (auto simp: isDigit_def)
  then have ni: "\<not> startsWith ds ''Infinity''" using ds by simp
  show ?thesis
    using ni assms(1) by (simp add: unsignedFloat_def tw dw Let_def expPart_def scale10_def)
qed

lemma trim_digits:
  assumes "ds \<noteq> []" and "list_all isDigit ds"
  shows "trim ds = ds" and "trim (CHR ''-'' # ds) = CHR ''-'' # ds"
proof -
  have ns: "\<And>c. isDigit c \<Longrightarrow> \<not> isSpace c" by (auto simp: isDigit_def isSpace_def)
  have h: "\<not> isSpace (hd ds)" and l: "\<not> isSpace (last ds)"
    using assms ns by (auto simp: list_all_iff)
  show "trim ds = ds" using h l by (intro trim_fixed) simp
  show "trim (CHR ''-'' # ds) = CHR ''-'' # ds"
    using assms(1) l by (intro trim_fixed) (simp add: isSpace_def)
qed

lemma parseFloat_digits:
  assumes "ds \<noteq> []" and "list_all isDigit ds"
  shows "parseFloat ds = Fin (of_nat (digitsVal ds))"
    and "parseFloat (CHR ''-'' # ds) = Fin (- of_nat (digitsVal ds))"
proof -
  obtain c cs where ds: "ds = c # cs" using assms(1) by (cases ds) auto
  then have d: "isDigit c" using assms(2) by simp
  then have c: "\<not> isSpace c" "c \<noteq> CHR ''-''" "c \<noteq> CHR ''+''"
    by (auto simp: isDigit_def isSpace_def)
  show "parseFloat ds = Fin (of_nat (digitsVal ds))"
    using c unsignedFloat_digits [OF assms] by (simp add: parseFloat_def ds)
  show "parseFloat (CHR ''-'' # ds) = Fin (- of_nat (digitsVal ds))"
    using unsignedFloat_digits [OF assms] by (simp add: parseFloat_def isSpace_def negNum_def)
qed

text \<open>
  The text of an integer below \<open>10\<^sup>2\<^sup>1\<close> in absolute value, and of an infinity, reads back
  as the number, on every host.
\<close>

lemma integer_reads_back:
  assumes "isInt q" and "\<bar>q\<bar> < 10 ^ 21"
  shows "parseFloat (trim (numToString h (Fin q))) = Fin q"
proof -
  let ?i = "\<lfloor>q\<rfloor>"
  have q: "q = of_int ?i" using assms(1) unfolding isInt_def by (rule sym)
  have s: "numToString h (Fin q) = showInt ?i" using assms by simp
  show ?thesis
  proof (cases "?i < 0")
    case True
    let ?ds = "showNat (nat (- ?i))"
    have d: "?ds \<noteq> []" "list_all isDigit ?ds" "digitsVal ?ds = nat (- ?i)"
      using showNat_digits by simp_all
    have "parseFloat (trim (showInt ?i)) = Fin (- of_nat (nat (- ?i)))"
      using True trim_digits(2) [OF d(1,2)] parseFloat_digits(2) [OF d(1,2)] d(3)
      by (simp add: showInt_def)
    also have "\<dots> = Fin (of_int ?i)" using True by simp
    finally show ?thesis using s q by simp
  next
    case False
    let ?ds = "showNat (nat ?i)"
    have d: "?ds \<noteq> []" "list_all isDigit ?ds" "digitsVal ?ds = nat ?i"
      using showNat_digits by simp_all
    have "parseFloat (trim (showInt ?i)) = Fin (of_nat (nat ?i))"
      using False trim_digits(1) [OF d(1,2)] parseFloat_digits(1) [OF d(1,2)] d(3)
      by (simp add: showInt_def)
    also have "\<dots> = Fin (of_int ?i)" using False by simp
    finally show ?thesis using s q by simp
  qed
qed

lemma infinity_reads_back: "parseFloat (trim (numToString h (Infty b))) = Infty b"
  by (cases b) (simp_all add: trim_def isSpace_def parseFloat_def unsignedFloat_def negNum_def)

lemma jsonParse_empty: "jsonParse [] = None"
  by (simp add: jsonParse_def)

lemma jsonParse_braces: "jsonParse ''{}'' = Some JOther"
  by code_simp

lemma trim_braces: "trim ''{}'' = ''{}''"
  by code_simp

lemma clean_empty: "cleanValue h (Str []) col = Str []"
  by (simp add: cleanValue_def)

lemma clean_text:
  "s \<noteq> [] \<Longrightarrow>
   cleanValue h (Str s) col =
     (case ctype col of
        TyNumber \<Rightarrow>
          (if isNaN (parseFloat (trim s)) then (if required col then Num (Fin 0) else Str [])
           else Num (parseFloat (trim s)))
      | TyBoolean \<Rightarrow> orElse (boolMapGet (toLowerCase (trim s))) (Bool False)
      | TyJson \<Rightarrow> (case jsonParse (trim s) of Some k \<Rightarrow> Str (trim s) | None \<Rightarrow> Str ''{}'')
      | TyArray \<Rightarrow>
          (case jsonParse (replaceAll CHR 0x27 [CHR 0x22] (trim s)) of
             Some k \<Rightarrow> (if k = JArray then Str (trim s) else Str (''['' @ trim s @ '']''))
           | None \<Rightarrow> (if includesStr (trim s) '','' then Str (quoteTokens (trim s)) else Str (trim s)))
      | _ \<Rightarrow> Str (trim s))"
  by (cases "ctype col") (simp_all add: cleanValue_def Let_def)

lemma parse_zero: "parseFloat (trim ''0'') = Fin 0"
  by code_simp

lemma clean_zero:
  "ctype col = TyNumber \<Longrightarrow> cleanValue h (Num (Fin 0)) col = Num (Fin 0)"
  by (simp add: cleanValue_def Let_def isInt_def showInt_def showNat.simps [of 0] parse_zero isNaN_def)

lemma clean_bool:
  "ctype col = TyBoolean \<Longrightarrow> cleanValue h (Bool b) col = Bool b"
  by (cases b) (simp_all add: cleanValue_def Let_def boolMapGet_def orElse_def trim_def isSpace_def
       toLowerCase_def lowerChar_def)

lemma boolMapGet_cases:
  "k \<noteq> ''constructor'' \<Longrightarrow> k \<noteq> ''__proto__'' \<Longrightarrow>
   orElse (boolMapGet k) (Bool False) = Bool True \<or> orElse (boolMapGet k) (Bool False) = Bool False"
  by (auto simp: boolMapGet_def orElse_def split: option.splits)

text \<open>
  C6, amended: normalizing the normalizer's output gives the same value again, for every
  column type and every cell, in these cases: in an array column, when the first output is
  empty, is the trimmed text of the input, or parses as a JSON array after the replacement of
  single by double quotes; in a boolean column, when the trimmed lower-cased text is not one
  of the inherited property names \<open>constructor\<close> and \<open>__proto__\<close>; in a number column,
  when the text of the number that was read reads back as that number, which
  \<open>Number::toString\<close> guarantees for a double and which holds here on every host for the
  integers below \<open>10\<^sup>2\<^sup>1\<close> and the infinities (lemmas \<open>integer_reads_back\<close> and
  \<open>infinity_reads_back\<close>).
\<close>

theorem C6_cleanValue_idempotent:
  assumes num: "ctype col = TyNumber \<longrightarrow>
                  (\<forall>n. cleanValue h v col = Num n \<longrightarrow> parseFloat (trim (numToString h n)) = n)"
    and bool: "ctype col = TyBoolean \<longrightarrow>
                  toLowerCase (trim (toStr h v)) \<notin> {''constructor'', ''__proto__''}"
    and arr: "ctype col = TyArray \<longrightarrow>
                  (\<forall>t. cleanValue h v col = Str t \<longrightarrow>
                     t = [] \<or> t = trim (toStr h v) \<or>
                     jsonParse (replaceAll CHR 0x27 [CHR 0x22] t) = Some JArray)"
  shows "cleanValue h (cleanValue h v col) col = cleanValue h v col"
proof (cases "isEmptyCell v")
  case True
  then show ?thesis by (simp add: cleanValue_def)
next
  case False
  let ?s = "trim (toStr h v)"
  have tt: "trim ?s = ?s" by (rule trim_trim)
  have same: "?s \<noteq> [] \<Longrightarrow> cleanValue h (Str ?s) col = cleanValue h v col"
    using False by (simp add: clean_text tt cleanValue_def Let_def)
  have as_text: "cleanValue h v col = Str ?s \<Longrightarrow> ?thesis"
    using same clean_empty by (cases "?s = []") simp_all
  show ?thesis
  proof (cases "ctype col")
    case TyNumber
    let ?n = "parseFloat ?s"
    show ?thesis
    proof (cases "isNaN ?n")
      case True
      then have "cleanValue h v col = (if required col then Num (Fin 0) else Str [])"
        using False TyNumber by (simp add: cleanValue_def Let_def)
      then show ?thesis using clean_zero [OF TyNumber] clean_empty by simp
    next
      case nn: False
      then have out: "cleanValue h v col = Num ?n"
        using False TyNumber by (simp add: cleanValue_def Let_def)
      then have rt: "parseFloat (trim (numToString h ?n)) = ?n" using num TyNumber by simp
      have "cleanValue h (Num ?n) col = Num ?n"
        using TyNumber nn rt by (simp add: cleanValue_def Let_def)
      then show ?thesis using out by simp
    qed
  next
    case TyBoolean
    have out: "cleanValue h v col = orElse (boolMapGet (toLowerCase ?s)) (Bool False)"
      using False TyBoolean by (simp add: cleanValue_def Let_def)
    have "toLowerCase ?s \<noteq> ''constructor''" "toLowerCase ?s \<noteq> ''__proto__''"
      using bool TyBoolean by auto
    then obtain b where "cleanValue h v col = Bool b"
      using boolMapGet_cases out by metis
    then show ?thesis using clean_bool [OF TyBoolean] by simp
  next
    case TyJson
    show ?thesis
    proof (cases "jsonParse ?s")
      case None
      then have "cleanValue h v col = Str ''{}''"
        using False TyJson by (simp add: cleanValue_def Let_def)
      moreover have "cleanValue h (Str ''{}'') col = Str ''{}''"
        using TyJson by (simp add: clean_text trim_braces jsonParse_braces)
      ultimately show ?thesis by simp
    next
      case (Some k)
      then have "cleanValue h v col = Str ?s"
        using False TyJson by (simp add: cleanValue_def Let_def)
      then show ?thesis by (rule as_text)
    qed
  next
    case TyArray
    have shape0: "cleanValue h v col = Str ?s \<or> cleanValue h v col = Str (''['' @ ?s @ '']'') \<or>
                  cleanValue h v col = Str (quoteTokens ?s)"
      using False TyArray by (simp add: cleanValue_def Let_def split: option.splits)
    then obtain t where out: "cleanValue h v col = Str t"
      and shape: "t = ?s \<or> t = ''['' @ ?s @ '']'' \<or> t = quoteTokens ?s"
      by blast
    from out
    have "t = [] \<or> t = ?s \<or> jsonParse (replaceAll CHR 0x27 [CHR 0x22] t) = Some JArray"
      using arr TyArray by blast
    then consider "t = []" | "t = ?s" | "jsonParse (replaceAll CHR 0x27 [CHR 0x22] t) = Some JArray"
      by blast
    then show ?thesis
    proof cases
      case 1 then show ?thesis using out clean_empty by simp
    next
      case 2 then show ?thesis using out as_text by simp
    next
      case 3
      have ne: "t \<noteq> []" using 3 by (auto simp: replaceAll_def jsonParse_empty)
      have "trim t = t"
      proof -
        from shape consider "t = ?s" | "t = ''['' @ ?s @ '']''" | "t = quoteTokens ?s" by blast
        then show ?thesis
        proof cases
          case 1 then show ?thesis using tt by simp
        next
          case 2
          then show ?thesis by (intro trim_fixed) (simp add: isSpace_def)
        next
          case 3
          then show ?thesis by (intro trim_fixed) (simp add: isSpace_def quoteTokens_def)
        qed
      qed
      then have "cleanValue h (Str t) col = Str t"
        using ne TyArray 3 by (simp add: clean_text)
      then show ?thesis using out by simp
    qed
  next
    case TyString
    then have "cleanValue h v col = Str ?s" using False by (simp add: cleanValue_def Let_def)
    then show ?thesis by (rule as_text)
  next
    case TyDate
    then have "cleanValue h v col = Str ?s" using False by (simp add: cleanValue_def Let_def)
    then show ?thesis by (rule as_text)
  next
    case TyEmail
    then have "cleanValue h v col = Str ?s" using False by (simp add: cleanValue_def Let_def)
    then show ?thesis by (rule as_text)
  next
    case TyUrl
    then have "cleanValue h v col = Str ?s" using False by (simp add: cleanValue_def Let_def)
    then show ?thesis by (rule as_text)
  next
    case TyId
    then have "cleanValue h v col = Str ?s" using False by (simp add: cleanValue_def Let_def)
    then show ?thesis by (rule as_text)
  qed
qed

text \<open>
  Three instances: a number column, a boolean column and an array column whose comma-separated
  input is turned into a JSON array.
\<close>

theorem C6_cleanValue_idempotent_witness:
  "cleanValue refHost (cleanValue refHost (Str '' 12.5 '') (demoColumn TyNumber)) (demoColumn TyNumber)
     = Num (Fin (25 / 2)) \<and>
   cleanValue refHost (cleanValue refHost (Str ''Yes'') (demoColumn TyBoolean)) (demoColumn TyBoolean)
     = Bool True \<and>
   cleanValue refHost (cleanValue refHost (Str ''a, b'') (demoColumn TyArray)) (demoColumn TyArray)
     = Str (''['' @ [CHR 0x22] @ ''a'' @ [CHR 0x22] @ '','' @ [CHR 0x22] @ ''b'' @ [CHR 0x22] @ '']'')"
proof -
  have n1: "cleanValue refHost (Str '' 12.5 '') (demoColumn TyNumber) = Num (Fin (25 / 2))"
    by code_simp
  have n2: "parseFloat (trim (numToString refHost (Fin (25 / 2)))) = Fin (25 / 2)"
    by code_simp
  have n: "cleanValue refHost (cleanValue refHost (Str '' 12.5 '') (demoColumn TyNumber)) (demoColumn TyNumber)
             = cleanValue refHost (Str '' 12.5 '') (demoColumn TyNumber)"
  proof (rule C6_cleanValue_idempotent)
    show "ctype (demoColumn TyNumber) = TyNumber \<longrightarrow>
            (\<forall>n. cleanValue refHost (Str '' 12.5 '') (demoColumn TyNumber) = Num n \<longrightarrow>
                 parseFloat (trim (numToString refHost n)) = n)"
      using n2 by (simp add: n1)
  qed (simp_all add: demoColumn_def)
  have b1: "toLowerCase (trim ''Yes'') = ''yes''"
    by code_simp
  have b2: "cleanValue refHost (Str ''Yes'') (demoColumn TyBoolean) = Bool True"
    by code_simp
  have b: "cleanValue refHost (cleanValue refHost (Str ''Yes'') (demoColumn TyBoolean)) (demoColumn TyBoolean)
             = cleanValue refHost (Str ''Yes'') (demoColumn TyBoolean)"
  proof (rule C6_cleanValue_idempotent)
    show "ctype (demoColumn TyBoolean) = TyBoolean \<longrightarrow>
            toLowerCase (trim (toStr refHost (Str ''Yes''))) \<notin> {''constructor'', ''__proto__''}"
      by (simp add: b1)
  qed (simp_all add: demoColumn_def)
  have a1: "cleanValue refHost (Str ''a, b'') (demoColumn TyArray)
              = Str (''['' @ [CHR 0x22] @ ''a'' @ [CHR 0x22] @ '','' @ [CHR 0x22] @ ''b'' @ [CHR 0x22] @ '']'')"
    by code_simp
  have a2: "jsonParse (replaceAll CHR 0x27 [CHR 0x22]
              (''['' @ [CHR 0x22] @ ''a'' @ [CHR 0x22] @ '','' @ [CHR 0x22] @ ''b'' @ [CHR 0x22] @ '']''))
              = Some JArray"
    by code_simp
  have a: "cleanValue refHost (cleanValue refHost (Str ''a, b'') (demoColumn TyArray)) (demoColumn TyArray)
             = cleanValue refHost (Str ''a, b'') (demoColumn TyArray)"
  proof (rule C6_cleanValue_idempotent)
    show "ctype (demoColumn TyArray) = TyArray \<longrightarrow>
            (\<forall>t. cleanValue refHost (Str ''a, b'') (demoColumn TyArray) = Str t \<longrightarrow>
                 t = [] \<or> t = trim (toStr refHost (Str ''a, b'')) \<or>
                 jsonParse (replaceAll CHR 0x27 [CHR 0x22] t) = Some JArray)"
      using a2 by (simp add: a1)
  qed (simp_all add: demoColumn_def)
  show ?thesis using n n1 b b2 a a1 by simp
qed

text \<open>
  C6, as stated, fails in an array column. The cell \<open>a",b\<close> is no JSON text and has a comma,
  so its tokens are quoted: \<open>["a"","b"]\<close>. That text is no JSON text either and has a
  comma, so normalizing it again quotes its tokens again.
\<close>

theorem C6_array_not_idempotent_counterexample:
  "cleanValue refHost (Str (''a'' @ [CHR 0x22] @ '',b'')) (demoColumn TyArray)
     = Str (''['' @ [CHR 0x22] @ ''a'' @ [CHR 0x22, CHR 0x22] @ '','' @ [CHR 0x22] @ ''b'' @ [CHR 0x22] @ '']'') \<and>
   cleanValue refHost
       (cleanValue refHost (Str (''a'' @ [CHR 0x22] @ '',b'')) (demoColumn TyArray))
       (demoColumn TyArray)
     \<noteq> cleanValue refHost (Str (''a'' @ [CHR 0x22] @ '',b'')) (demoColumn TyArray)"
  by code_simp

section \<open>Properties of the validation engine\<close>

lemma set_indexed: "set (indexed xs) = {(i, xs ! i) | i. i < length xs}"
proof -
  have "set (zip [0 ..< length xs] xs) = {([0 ..< length xs] ! i, xs ! i) | i. i < length xs}"
    by (simp add: set_zip)
  also have "\<dots> = {(i, xs ! i) | i. i < length xs}"
    by (rule Collect_cong) (metis add_0 nth_upt)
  finally show ?thesis by (simp add: indexed_def)
qed

lemma in_relationErrors:
  "e \<in> set (relationErrors h dat T rel) \<longleftrightarrow>
     (\<exists>i < length (rowsOf dat T).
        truthy (getCell (rowsOf dat T ! i) (rcolumn rel)) \<and>
        getCell (rowsOf dat T ! i) (rcolumn rel) \<notin> targetValues dat rel \<and>
        e = refError h T i rel (getCell (rowsOf dat T ! i) (rcolumn rel)))"
  by (auto simp: relationErrors_def Let_def set_indexed targetValues_def)

lemma in_validateCrossReferences:
  "e \<in> set (validateCrossReferences h scs dat) \<longleftrightarrow>
     (\<exists>T schema rel. (T, schema) \<in> set scs \<and> rel \<in> set (relationships schema) \<and>
        e \<in> set (relationErrors h dat T rel))"
  by (auto simp: validateCrossReferences_def)

lemma refError_inj:
  assumes "refError h T i rel v = refError h T' i' rel' v'"
  shows "T = T' \<and> i = i' \<and> rcolumn rel = rcolumn rel' \<and> (toStr h v = toStr h v' \<longrightarrow> rtable rel = rtable rel')"
proof -
  have i: "i = i'"
    using arg_cong [OF assms, of vrow] by (simp add: refError_def)
  have c: "rcolumn rel = rcolumn rel'"
    using arg_cong [OF assms, of vcolumn] by (simp add: refError_def)
  have d: "T @ ''-'' @ showNat i @ ''-'' @ rcolumn rel @ ''-ref'' =
           T' @ ''-'' @ showNat i' @ ''-'' @ rcolumn rel' @ ''-ref''"
    using arg_cong [OF assms, of vid] by (simp add: refError_def)
  have s: "Some (''Remove '' @ toStr h v @ '' or add corresponding record in '' @ rtable rel) =
           Some (''Remove '' @ toStr h v' @ '' or add corresponding record in '' @ rtable rel')"
    using arg_cong [OF assms, of suggestion] by (simp add: refError_def)
  from d i c have "T = T'" by simp
  moreover have "toStr h v = toStr h v' \<longrightarrow> rtable rel = rtable rel'"
  proof
    assume a: "toStr h v = toStr h v'"
    from s show "rtable rel = rtable rel'" unfolding a by simp
  qed
  ultimately show ?thesis using i c by simp
qed

text \<open>
  C4, amended: for every declared relationship of every table that has a schema, and every
  row \<open>i\<close> of the source table, the cross-reference pass emits the
  \<open>unknown_reference\<close> finding of that row, column and target table (severity error, not
  auto-fixable) if and only if the row's value in the column is truthy (not \<open>null\<close>,
  \<open>undefined\<close>, the empty string, \<open>0\<close>, \<open>NaN\<close> or \<open>false\<close>) and does not occur among
  the target table's values for the same column name. A target table that is not loaded has no
  values.
\<close>

theorem C4_unknown_reference_iff:
  assumes "(T, schema) \<in> set scs" and "rel \<in> set (relationships schema)"
    and "i < length (rowsOf dat T)"
  shows "(refError h T i rel (getCell (rowsOf dat T ! i) (rcolumn rel))
            \<in> set (validateCrossReferences h scs dat)
          \<longleftrightarrow>
          truthy (getCell (rowsOf dat T ! i) (rcolumn rel)) \<and>
          getCell (rowsOf dat T ! i) (rcolumn rel) \<notin> targetValues dat rel) \<and>
         vtype (refError h T i rel v) = ''unknown_reference'' \<and>
         vseverity (refError h T i rel v) = SevError \<and>
         autoFixable (refError h T i rel v) = Some False \<and>
         vrow (refError h T i rel v) = i \<and>
         vcolumn (refError h T i rel v) = rcolumn rel"
proof -
  have main: "refError h T i rel (getCell (rowsOf dat T ! i) (rcolumn rel))
                \<in> set (validateCrossReferences h scs dat)
              \<longleftrightarrow>
              truthy (getCell (rowsOf dat T ! i) (rcolumn rel)) \<and>
              getCell (rowsOf dat T ! i) (rcolumn rel) \<notin> targetValues dat rel"
  proof
  let ?v = "getCell (rowsOf dat T ! i) (rcolumn rel)"
  assume "refError h T i rel ?v \<in> set (validateCrossReferences h scs dat)"
  then obtain T' and schema' :: tableSchema and rel' where
      rel': "rel' \<in> set (relationships schema')"
    and mem: "refError h T i rel ?v \<in> set (relationErrors h dat T' rel')"
    unfolding in_validateCrossReferences by blast
  from mem obtain i' where
      i': "i' < length (rowsOf dat T')"
    and tr: "truthy (getCell (rowsOf dat T' ! i') (rcolumn rel'))"
    and ab: "getCell (rowsOf dat T' ! i') (rcolumn rel') \<notin> targetValues dat rel'"
    and eq: "refError h T i rel ?v =
             refError h T' i' rel' (getCell (rowsOf dat T' ! i') (rcolumn rel'))"
    unfolding in_relationErrors by blast
  from refError_inj [OF eq] have T: "T = T'" and ii: "i = i'" and c: "rcolumn rel = rcolumn rel'"
    and t: "toStr h ?v = toStr h (getCell (rowsOf dat T' ! i') (rcolumn rel')) \<longrightarrow>
            rtable rel = rtable rel'"
    by simp_all
  have v: "getCell (rowsOf dat T' ! i') (rcolumn rel') = ?v" using T ii c by simp
  then have "rtable rel = rtable rel'" using t by simp
  then have "targetValues dat rel' = targetValues dat rel" using c by (simp add: targetValues_def)
  then show "truthy ?v \<and> ?v \<notin> targetValues dat rel" using tr ab v by simp
next
  let ?v = "getCell (rowsOf dat T ! i) (rcolumn rel)"
  assume "truthy ?v \<and> ?v \<notin> targetValues dat rel"
  then have "refError h T i rel ?v \<in> set (relationErrors h dat T rel)"
    unfolding in_relationErrors using assms(3) by blast
  then show "refError h T i rel ?v \<in> set (validateCrossReferences h scs dat)"
    unfolding in_validateCrossReferences using assms(1,2) by blast
  qed
  show ?thesis using main by (simp add: refError_def)
qed

lemma crossReference_kind:
  assumes "e \<in> set (validateCrossReferences h scs dat)"
  shows "vtype e = ''unknown_reference'' \<and> vseverity e = SevError \<and> autoFixable e = Some False"
  using assms unfolding in_validateCrossReferences in_relationErrors
  by (auto simp: refError_def)

text \<open>
  The example of the specification: the task whose \<open>ClientID\<close> is \<open>C999\<close>, with no
  such client, gets the finding.
\<close>

theorem C4_unknown_reference_iff_witness:
  "(''tasks'', tasksSchema) \<in> set demoSchemas \<and> clientLink \<in> set (relationships tasksSchema) \<and>
   0 < length (rowsOf demoTables ''tasks'') \<and>
   getCell (rowsOf demoTables ''tasks'' ! 0) (rcolumn clientLink) = Str ''C999'' \<and>
   refError refHost ''tasks'' 0 clientLink (Str ''C999'')
     \<in> set (validateCrossReferences refHost demoSchemas demoTables)"
proof -
  have a: "(''tasks'', tasksSchema) \<in> set demoSchemas" by (simp add: demoSchemas_def)
  have b: "clientLink \<in> set (relationships tasksSchema)"
    by (simp add: tasksSchema_def mkSchema_def)
  have c: "0 < length (rowsOf demoTables ''tasks'')"
    by (simp add: rowsOf_def demoTables_def tasksRows_def)
  have d: "getCell (rowsOf demoTables ''tasks'' ! 0) (rcolumn clientLink) = Str ''C999''"
    by (simp add: rowsOf_def demoTables_def tasksRows_def getCell_def clientLink_def)
  have e: "Str ''C999'' \<notin> targetValues demoTables clientLink"
    by (simp add: targetValues_def rowsOf_def demoTables_def clientsRows_def getCell_def
          clientLink_def)
  show ?thesis
    using a b c d e C4_unknown_reference_iff [OF a b c, of refHost] by simp
qed

text \<open>
  C4, as stated, fails on a value that is not empty and not truthy: the task refers to client
  \<open>0\<close>, the clients table has no \<open>0\<close>, and no finding is emitted.
\<close>

theorem C4_zero_reference_counterexample:
  "getCell (rowsOf zeroRefTables ''tasks'' ! 0) ''ClientID'' = Num (Fin 0) \<and>
   \<not> isEmptyCell (Num (Fin 0)) \<and>
   Num (Fin 0) \<notin> targetValues zeroRefTables clientLink \<and>
   validateCrossReferences refHost demoSchemas zeroRefTables = []"
proof -
  have "validateCrossReferences refHost demoSchemas zeroRefTables = []" by code_simp
  moreover have "Num (Fin 0) \<notin> targetValues zeroRefTables clientLink"
    by (simp add: targetValues_def rowsOf_def zeroRefTables_def getCell_def clientLink_def)
  ultimately show ?thesis
    by (simp add: rowsOf_def zeroRefTables_def getCell_def)
qed

lemma burnoutErrors_none:
  "find isLoadColumn (columns schema) = None \<Longrightarrow> burnoutErrors h dat T schema = []"
  by (simp add: burnoutErrors_def)

lemma in_burnoutErrors:
  assumes "find isLoadColumn (columns schema) = Some lc"
  shows "e \<in> set (burnoutErrors h dat T schema) \<longleftrightarrow>
     entityType (classification schema) = Workers \<and>
     (\<exists>i < length (rowsOf dat T).
        truthy (getCell (rowsOf dat T ! i) (cname lc)) \<and>
        gtNum (parseInt (toStr h (getCell (rowsOf dat T ! i) (cname lc)))) (Fin 8) \<and>
        e = burnoutError h T i lc (parseInt (toStr h (getCell (rowsOf dat T ! i) (cname lc)))))"
  using assms by (auto simp: burnoutErrors_def Let_def set_indexed)

lemma in_validateAdvancedConstraints:
  "e \<in> set (validateAdvancedConstraints h scs dat) \<longleftrightarrow>
     (\<exists>T schema. (T, schema) \<in> set scs \<and> e \<in> set (burnoutErrors h dat T schema))"
  by (auto simp: validateAdvancedConstraints_def)

lemma burnoutError_inj:
  assumes "burnoutError h T i lc n = burnoutError h T' i' lc' n'"
  shows "T = T' \<and> i = i' \<and> cname lc = cname lc'"
proof -
  have i: "i = i'"
    using arg_cong [OF assms, of vrow] by (simp add: burnoutError_def)
  have c: "cname lc = cname lc'"
    using arg_cong [OF assms, of vcolumn] by (simp add: burnoutError_def)
  have d: "T @ ''-'' @ showNat i @ ''-burnout-risk'' = T' @ ''-'' @ showNat i' @ ''-burnout-risk''"
    using arg_cong [OF assms, of vid] by (simp add: burnoutError_def)
  from d i have "T = T'" by simp
  then show ?thesis using i c by simp
qed

text \<open>
  C8, amended: for every table whose schema is classified \<open>workers\<close>, let the load column
  be the first column of the schema whose lower-cased name contains \<open>load\<close> or
  \<open>capacity\<close>. For every row, the \<open>burnout_risk\<close> finding of that row and column (severity
  warning, not auto-fixable) is emitted if and only if the row's value in the load column is
  truthy and \<open>parseInt\<close> of its text exceeds 8; and every finding of the table is for the
  load column.
\<close>

theorem C8_burnout_first_load_column:
  assumes "(T, schema) \<in> set scs" and "entityType (classification schema) = Workers"
    and "find isLoadColumn (columns schema) = Some lc"
    and "i < length (rowsOf dat T)"
  shows "(burnoutError h T i lc (parseInt (toStr h (getCell (rowsOf dat T ! i) (cname lc))))
            \<in> set (validateAdvancedConstraints h scs dat)
          \<longleftrightarrow>
          truthy (getCell (rowsOf dat T ! i) (cname lc)) \<and>
          gtNum (parseInt (toStr h (getCell (rowsOf dat T ! i) (cname lc)))) (Fin 8)) \<and>
         (\<forall>e \<in> set (burnoutErrors h dat T schema). vcolumn e = cname lc) \<and>
         vtype (burnoutError h T i lc n) = ''burnout_risk'' \<and>
         vseverity (burnoutError h T i lc n) = SevWarning \<and>
         autoFixable (burnoutError h T i lc n) = Some False \<and>
         vrow (burnoutError h T i lc n) = i \<and>
         vcolumn (burnoutError h T i lc n) = cname lc"
proof -
  let ?v = "getCell (rowsOf dat T ! i) (cname lc)"
  have main: "burnoutError h T i lc (parseInt (toStr h ?v))
                \<in> set (validateAdvancedConstraints h scs dat)
              \<longleftrightarrow> truthy ?v \<and> gtNum (parseInt (toStr h ?v)) (Fin 8)"
  proof
    assume "burnoutError h T i lc (parseInt (toStr h ?v))
              \<in> set (validateAdvancedConstraints h scs dat)"
    then obtain T' and schema' :: tableSchema where
        mem: "burnoutError h T i lc (parseInt (toStr h ?v)) \<in> set (burnoutErrors h dat T' schema')"
      unfolding in_validateAdvancedConstraints by blast
    then obtain lc' where lc': "find isLoadColumn (columns schema') = Some lc'"
      using burnoutErrors_none [of schema' h dat T']
      by (cases "find isLoadColumn (columns schema')") auto
    from mem obtain i' where
        tr: "truthy (getCell (rowsOf dat T' ! i') (cname lc'))"
      and gt: "gtNum (parseInt (toStr h (getCell (rowsOf dat T' ! i') (cname lc')))) (Fin 8)"
      and eq: "burnoutError h T i lc (parseInt (toStr h ?v)) =
               burnoutError h T' i' lc' (parseInt (toStr h (getCell (rowsOf dat T' ! i') (cname lc'))))"
      unfolding in_burnoutErrors [OF lc'] by blast
    from burnoutError_inj [OF eq] have "getCell (rowsOf dat T' ! i') (cname lc') = ?v" by simp
    then show "truthy ?v \<and> gtNum (parseInt (toStr h ?v)) (Fin 8)" using tr gt by simp
  next
    assume "truthy ?v \<and> gtNum (parseInt (toStr h ?v)) (Fin 8)"
    then have "burnoutError h T i lc (parseInt (toStr h ?v)) \<in> set (burnoutErrors h dat T schema)"
      unfolding in_burnoutErrors [OF assms(3)] using assms(2,4) by blast
    then show "burnoutError h T i lc (parseInt (toStr h ?v))
                 \<in> set (validateAdvancedConstraints h scs dat)"
      unfolding in_validateAdvancedConstraints using assms(1) by blast
  qed
  have cols: "\<forall>e \<in> set (burnoutErrors h dat T schema). vcolumn e = cname lc"
  proof
    fix e assume "e \<in> set (burnoutErrors h dat T schema)"
    then obtain j where "e = burnoutError h T j lc (parseInt (toStr h (getCell (rowsOf dat T ! j) (cname lc))))"
      unfolding in_burnoutErrors [OF assms(3)] by blast
    then show "vcolumn e = cname lc" by (simp add: burnoutError_def)
  qed
  show ?thesis using main cols by (simp add: burnoutError_def)
qed

text \<open>
  The example of the specification: a \<open>workers\<close> table whose column
  \<open>MaxLoadPerPhase\<close> holds \<open>12\<close> in its first row gets the warning.
\<close>

theorem C8_burnout_first_load_column_witness:
  "(''workers'', loadSchema) \<in> set [(''workers'', loadSchema)] \<and>
   entityType (classification loadSchema) = Workers \<and>
   find isLoadColumn (columns loadSchema) = Some (mkColumn ''MaxLoadPerPhase'' TyNumber None) \<and>
   0 < length (rowsOf loadTables ''workers'') \<and>
   burnoutError refHost ''workers'' 0 (mkColumn ''MaxLoadPerPhase'' TyNumber None) (Fin 12)
     \<in> set (validateAdvancedConstraints refHost [(''workers'', loadSchema)] loadTables)"
proof -
  let ?lc = "mkColumn ''MaxLoadPerPhase'' TyNumber None"
  have a: "(''workers'', loadSchema) \<in> set [(''workers'', loadSchema)]" by simp
  have b: "entityType (classification loadSchema) = Workers"
    by (simp add: loadSchema_def mkSchema_def)
  have c: "find isLoadColumn (columns loadSchema) = Some ?lc" by code_simp
  have d: "0 < length (rowsOf loadTables ''workers'')"
    by (simp add: rowsOf_def loadTables_def)
  have v: "getCell (rowsOf loadTables ''workers'' ! 0) (cname ?lc) = Str ''12''"
    by (simp add: rowsOf_def loadTables_def getCell_def mkColumn_def)
  have p: "parseInt ''12'' = Fin 12" by code_simp
  show ?thesis
    using a b c d C8_burnout_first_load_column [OF a b c d, of refHost] by (simp add: v p)
qed

text \<open>
  C8, as stated, fails on a second load column: the schema has \<open>MaxLoad\<close> before
  \<open>Capacity\<close>, the row holds 5 and 12, and no finding is emitted for \<open>Capacity\<close> (nor for
  any column), although 12 exceeds 8.
\<close>

theorem C8_second_load_column_counterexample:
  "entityType (classification workersSchema) = Workers \<and>
   isLoadColumn (mkColumn ''Capacity'' TyNumber None) \<and>
   mkColumn ''Capacity'' TyNumber None \<in> set (columns workersSchema) \<and>
   getCell (rowsOf demoTables ''workers'' ! 0) ''Capacity'' = Num (Fin 12) \<and>
   validateAdvancedConstraints refHost demoSchemas demoTables = []"
  by code_simp

section \<open>Re-validation and auto-fix\<close>

text \<open>
  C3: an edit of a row of a table \<open>T\<close> is to discard and recompute exactly the findings of
  \<open>T\<close> and to leave the findings of every other table as they are, and the findings of
  \<open>T\<close> are then to depend on its current rows. The code does neither.

  The three tables are uploaded one after the other, which leaves one finding, the broken
  reference of the tasks table. Then a cell of the workers table is edited. The pass that
  follows recomputes the cross-reference findings of every table and removes only the findings
  whose id starts with \<open>workers\<close>, so the finding of the tasks table is there twice.

  And the edit validates the one edited row under index 0 and drops every other finding of the
  table: the table \<open>notes\<close>, with the same schema, reaches the rows \<open>a\<close> and the empty text
  by an edit of row 1 in one state and by an edit of row 0 in another; the first leaves a
  finding for row 0, the second leaves none, and the row that lacks its required name is row 1.
\<close>

theorem C3_findings_after_edit:
  "map vid (validationErrors loadedState) = [''tasks-0-ClientID-ref''] \<and>
   map_option (\<lambda>s. map vid (validationErrors s))
       (updateData refHost loadedState ''workers'' 0 ''MaxLoad'' (Num (Fin 6)))
     = Some [''tasks-0-ClientID-ref'', ''tasks-0-ClientID-ref''] \<and>
   map_option (\<lambda>s. (tables s, schemas s, map (\<lambda>e. (vid e, vrow e)) (validationErrors s)))
       (updateData refHost notesA ''notes'' 1 ''Name'' (Str []))
     = Some ([(''notes'', [[(''Name'', Str ''a'')], [(''Name'', Str [])]])],
             [(''notes'', notesSchema)],
             [(''notes-0-Name-required'', 0)]) \<and>
   map_option (\<lambda>s. (tables s, schemas s, map (\<lambda>e. (vid e, vrow e)) (validationErrors s)))
       (updateData refHost notesB ''notes'' 0 ''Name'' (Str ''a''))
     = Some ([(''notes'', [[(''Name'', Str ''a'')], [(''Name'', Str [])]])],
             [(''notes'', notesSchema)],
             [])"
  by code_simp

lemma getCell_update: "getCell (AList.update k v r) k = v"
  by (simp add: getCell_def update_conv')

lemma rowsOf_update: "rowsOf (AList.update T rs dat) T = rs"
  by (simp add: rowsOf_def update_conv')

lemma indexed_nth: "i < length xs \<Longrightarrow> indexed xs ! i = (i, xs ! i)"
  by (simp add: indexed_def)

lemma updateData_cell:
  assumes "updateData h st T i f v = Some st'" and "i < length (rowsOf (tables st) T)"
  shows "getCell (rowsOf (tables st') T ! i) f = v"
proof -
  from assms(1) obtain rs where rs: "map_of (tables st) T = Some rs"
    by (auto simp: updateData_def split: option.splits)
  then have len: "i < length rs" using assms(2) by (simp add: rowsOf_def)
  let ?new = "map (\<lambda>(index, r). if index = i then AList.update f v r else r) (indexed rs)"
  have "tables st' = AList.update T ?new (tables st)"
    using assms(1) rs by (auto simp: updateData_def Let_def split: option.splits)
  then have "rowsOf (tables st') T = ?new" by (simp add: rowsOf_update)
  moreover have "?new ! i = AList.update f v (rs ! i)"
    using len by (simp add: indexed_def)
  ultimately show ?thesis by (simp add: getCell_update)
qed

text \<open>
  C2, amended: for a finding whose column is found in the schema of the table that its id
  names, the fix of a \<open>missing_required\<close> finding is 1 on a number column, the text
  \<open>false\<close> on a boolean column and the text \<open>default\<close> on a string column, whatever bounds
  the column has, and there is no fix on a column of another type; the fix of a
  \<open>type_mismatch\<close> finding is 0 on a number column and the text \<open>false\<close> on a boolean
  column. Applying the fix sets the cell of the finding's row and column to that value.
\<close>

theorem C2_fix_values:
  assumes "findColumn (schemas st) (errorTable e) (vcolumn e) = Some col"
  shows "(vtype e = ''missing_required'' \<longrightarrow>
            fixedValue (schemas st) e =
              (case ctype col of
                 TyNumber \<Rightarrow> Some (Num (Fin 1))
               | TyBoolean \<Rightarrow> Some (Str ''false'')
               | TyString \<Rightarrow> Some (Str ''default'')
               | _ \<Rightarrow> None)) \<and>
         (vtype e = ''type_mismatch'' \<longrightarrow>
            fixedValue (schemas st) e =
              (case ctype col of
                 TyNumber \<Rightarrow> Some (Num (Fin 0))
               | TyBoolean \<Rightarrow> Some (Str ''false'')
               | _ \<Rightarrow> None)) \<and>
         (\<forall>v st'. fixedValue (schemas st) e = Some v \<and> applyAutoFix h st e = Some st' \<and>
                   vrow e < length (rowsOf (tables st) (errorTable e)) \<longrightarrow>
                   getCell (rowsOf (tables st') (errorTable e) ! vrow e) (vcolumn e) = v)"
proof (intro conjI impI allI)
  assume "vtype e = ''missing_required''"
  then show "fixedValue (schemas st) e =
              (case ctype col of
                 TyNumber \<Rightarrow> Some (Num (Fin 1))
               | TyBoolean \<Rightarrow> Some (Str ''false'')
               | TyString \<Rightarrow> Some (Str ''default'')
               | _ \<Rightarrow> None)"
    using assms by (cases "ctype col") (simp_all add: fixedValue_def)
next
  assume "vtype e = ''type_mismatch''"
  then show "fixedValue (schemas st) e =
              (case ctype col of
                 TyNumber \<Rightarrow> Some (Num (Fin 0))
               | TyBoolean \<Rightarrow> Some (Str ''false'')
               | _ \<Rightarrow> None)"
    using assms by (cases "ctype col") (simp_all add: fixedValue_def)
next
  fix v st'
  assume a: "fixedValue (schemas st) e = Some v \<and> applyAutoFix h st e = Some st' \<and>
             vrow e < length (rowsOf (tables st) (errorTable e))"
  then have "updateData h st (errorTable e) (vrow e) (vcolumn e) v = Some st'"
    by (auto simp: applyAutoFix_def)
  then show "getCell (rowsOf (tables st') (errorTable e) ! vrow e) (vcolumn e) = v"
    using a by (simp add: updateData_cell)
qed

text \<open>
  The findings of a table whose required cells are empty: the fix of the number column is 1
  and that of the boolean column is the text \<open>false\<close>, and the fix is written to the cell.
\<close>

theorem C2_fix_values_witness:
  "findColumn (schemas scoresState) (errorTable scoreFinding) (vcolumn scoreFinding)
     = Some scoreColumn \<and>
   vtype scoreFinding = ''missing_required'' \<and>
   autoFixable scoreFinding = Some True \<and>
   scoreFinding \<in> set (validationErrors scoresState) \<and>
   fixedValue (schemas scoresState) scoreFinding = Some (Num (Fin 1)) \<and>
   map_option tables (applyAutoFix refHost scoresState scoreFinding)
     = Some [(''scores'', [[(''Score'', Num (Fin 1)), (''Active'', Str [])]])]"
proof -
  have c: "findColumn (schemas scoresState) (errorTable scoreFinding) (vcolumn scoreFinding)
             = Some scoreColumn"
    by code_simp
  have t: "vtype scoreFinding = ''missing_required''"
    by (simp add: scoreFinding_def requiredError_def)
  have n: "ctype scoreColumn = TyNumber" by (simp add: scoreColumn_def mkColumn_def)
  have f: "fixedValue (schemas scoresState) scoreFinding = Some (Num (Fin 1))"
    using C2_fix_values [OF c, of refHost] t n by simp
  have a: "autoFixable scoreFinding = Some True"
    by (simp add: scoreFinding_def requiredError_def n)
  have m: "scoreFinding \<in> set (validationErrors scoresState)" by code_simp
  have u: "map_option tables (applyAutoFix refHost scoresState scoreFinding)
             = Some [(''scores'', [[(''Score'', Num (Fin 1)), (''Active'', Str [])]])]"
    by code_simp
  show ?thesis using c t a m f u by simp
qed

text \<open>
  C2, as stated, fails on that finding: the column has the bounds 10 and 20, the claim gives the
  fix 10, and the fix is 1. On the boolean column the fix is the text \<open>false\<close>, not the
  boolean.
\<close>

theorem C2_bounds_ignored_counterexample:
  "findColumn (schemas scoresState) (errorTable scoreFinding) (vcolumn scoreFinding)
     = Some scoreColumn \<and>
   map_option vmin (validation scoreColumn) = Some (Some (Fin 10)) \<and>
   vtype scoreFinding = ''missing_required'' \<and>
   autoFixable scoreFinding = Some True \<and>
   fixedValue (schemas scoresState) scoreFinding = Some (Num (Fin 1)) \<and>
   vtype activeFinding = ''missing_required'' \<and>
   autoFixable activeFinding = Some True \<and>
   fixedValue (schemas scoresState) activeFinding = Some (Str ''false'')"
  by code_simp

end
